theory Spec2Isabelle
  imports Main "HOL-Library.Word"
begin

section \<open>The Yandex Cloud Monitoring output plugin\<close>

text \<open>
  A shallow embedding of \<^verbatim>\<open>plugins/outputs/yandex_cloud_monitoring/yandex_cloud_monitoring.go\<close>.
  Every function of the plugin becomes a HOL function of the same name. What the Go code
  does to the outside world is made explicit: the plugin's fields are a record that is
  passed in and returned, the HTTP requests and log lines a call produces are returned as
  a chronological list of events, the clock readings and the replies of the servers are
  arguments, and every error return is a value.
\<close>

subsection \<open>Data model\<close>

text \<open>
  An instant is a number of nanoseconds on the clock that \<^verbatim>\<open>time.Now()\<close> reads; a
  \<^verbatim>\<open>time.Duration\<close> is a signed 64-bit count of nanoseconds.
\<close>

type_synonym instant = int
type_synonym Duration = "64 word"

definition Second :: Duration where
  "Second = 1000000000"

definition Add :: "instant \<Rightarrow> Duration \<Rightarrow> instant" where
  "Add t d = t + sint d"

definition Before :: "instant \<Rightarrow> instant \<Rightarrow> bool" where
  "Before t u = (t < u)"

text \<open>
  A Go map of strings, as a \<^verbatim>\<open>range\<close> loop sees it: its entries in the order in which
  the loop visits them. The keys of a map are distinct; the order is the runtime's choice.
\<close>

type_synonym gomap = "(string \<times> string) list"

definition is_gomap :: "gomap \<Rightarrow> bool" where
  "is_gomap tags = distinct (map fst tags)"

text \<open>A Go slice is \<^verbatim>\<open>nil\<close> or holds elements; \<^verbatim>\<open>append\<close> never returns \<^verbatim>\<open>nil\<close>.\<close>

datatype 'a slice = NilSlice | Slice "'a list"

fun elems :: "'a slice \<Rightarrow> 'a list" where
  "elems NilSlice = []"
| "elems (Slice xs) = xs"

definition append_slice :: "'a slice \<Rightarrow> 'a \<Rightarrow> 'a slice" where
  "append_slice s x = Slice (elems s @ [x])"

text \<open>
  The plugin. \<^verbatim>\<open>Timeout\<close> is in nanoseconds; \<^verbatim>\<open>client\<close> tells whether the pointer to
  the HTTP client is set; what the logger is given is among the events of a call, and the
  self-statistics counter is registered and never touched again.
\<close>

record YandexCloudMonitoring =
  Timeout :: int
  Endpoint :: string
  Service :: string
  metadataTokenURL :: string
  metadataFolderURL :: string
  folderID :: string
  iamToken :: string
  iamTokenExpirationTime :: instant
  client :: bool

record 'f yandexCloudMonitoringMetric =
  Name :: string
  Labels :: "string \<rightharpoonup> string"
  MetricType :: string
  TS :: string
  Value :: 'f

record 'f yandexCloudMonitoringMessage =
  msg_TS :: string
  msg_Labels :: gomap
  Metrics :: "'f yandexCloudMonitoringMetric slice"

record metadataIamToken =
  AccessToken :: string
  ExpiresIn :: "64 word"
  TokenType :: string

text \<open>
  The host agent's metric (\<^verbatim>\<open>telegraf.Metric\<close>), as \<^verbatim>\<open>Write\<close> reads it: a name, the
  fields in the agent's order, the tags and a time. The type \<open>'v\<close> is that of the field
  values. \<^verbatim>\<open>Tags\<close> holds the tags in the order in which the loop of
  \<^verbatim>\<open>replaceReservedTagNames\<close> visits them; Go may visit them in another order at each
  call, which changes the labels only when both \<^verbatim>\<open>name\<close> and \<^verbatim>\<open>_name\<close> are tags of the
  metric, and the model takes one order for all the fields of a metric.
\<close>

datatype 'v Field = Field (Key: string) (FieldValue: 'v)

record 'v Metric =
  metric_Name :: string
  FieldList :: "'v Field list"
  Tags :: gomap
  Time :: instant

subsection \<open>Constants\<close>

definition defaultRequestTimeout :: int where
  "defaultRequestTimeout = 20 * 1000000000"

definition defaultEndpoint :: string where
  "defaultEndpoint = ''https://monitoring.api.cloud.yandex.net/monitoring/v2/data/write''"

definition defaultMetadataTokenURL :: string where
  "defaultMetadataTokenURL =
     ''http://169.254.169.254/computeMetadata/v1/instance/service-accounts/default/token''"

definition defaultMetadataFolderURL :: string where
  "defaultMetadataFolderURL =
     ''http://169.254.169.254/computeMetadata/v1/instance/vendor/folder-id''"

subsection \<open>Reserved tag names\<close>

text \<open>
  The loop of \<^verbatim>\<open>replaceReservedTagNames\<close> over the entries of \<^verbatim>\<open>tagNames\<close>, with
  \<^verbatim>\<open>newTags\<close> as the map built so far.
\<close>

fun replaceReservedTagNames_loop :: "gomap \<Rightarrow> (string \<rightharpoonup> string) \<Rightarrow> (string \<rightharpoonup> string)" where
  "replaceReservedTagNames_loop [] newTags = newTags"
| "replaceReservedTagNames_loop ((tagName, tagValue) # rest) newTags =
     (if tagName = ''name''
      then replaceReservedTagNames_loop rest (newTags(''_name'' \<mapsto> tagValue))
      else replaceReservedTagNames_loop rest (newTags(tagName \<mapsto> tagValue)))"

definition replaceReservedTagNames :: "gomap \<Rightarrow> (string \<rightharpoonup> string)" where
  "replaceReservedTagNames tagNames = replaceReservedTagNames_loop tagNames Map.empty"

subsection \<open>The outside world\<close>

text \<open>
  An HTTP request as the plugin builds it. \<^verbatim>\<open>Query\<close> holds the parameters added to those
  of the URL.
\<close>

record request =
  Method :: string
  URL :: string
  Query :: "(string \<times> string) list"
  Header :: "(string \<times> string) list"
  Body :: string

text \<open>\<^verbatim>\<open>Header.Set\<close> replaces the value of a key, or adds the key.\<close>

fun Set :: "(string \<times> string) list \<Rightarrow> string \<Rightarrow> string \<Rightarrow> (string \<times> string) list" where
  "Set [] key val = [(key, val)]"
| "Set ((k, v) # h) key val = (if k = key then (key, val) # h else (k, v) # Set h key val)"

text \<open>
  What \<^verbatim>\<open>client.Do\<close> followed by \<^verbatim>\<open>io.ReadAll\<close> of the response body gives: \<^verbatim>\<open>Do\<close>
  fails with an error, or a response with a status code and a status text arrives and
  reading its body fails with an error, or the response arrives whole, with its body.
\<close>

datatype http_reply =
    DoFails string
  | ReadAllFails int string string
  | Response int string string

text \<open>
  The effects of a call, in the order in which they happen: a line handed to the logger,
  or a request handed to \<^verbatim>\<open>client.Do\<close>.
\<close>

datatype event =
    Debugf string
  | Infof string
  | Errorf string
  | Do request

text \<open>
  The errors the plugin returns. \<^verbatim>\<open>NilClient\<close> is the panic of \<^verbatim>\<open>client.Do\<close> on a
  \<^verbatim>\<open>nil\<close> client.
\<close>

datatype error =
    NewRequestError string
  | CreatingRequest string
  | DoError string
  | ReadAllError string
  | MetadataStatus string int
  | UnmarshalError string
  | MarshalError string
  | NoCredentials string
  | NoFolderID string
  | WriteBatchFailed int string
  | NilClient





text \<open>
  The library functions the plugin calls, as parameters: the error of \<^verbatim>\<open>http.NewRequest\<close>
  for a method and a URL (\<open>None\<close> when it succeeds), \<^verbatim>\<open>json.Unmarshal\<close> into a
  \<^verbatim>\<open>metadataIamToken\<close>, \<^verbatim>\<open>internal.ToFloat64\<close>, the JSON encodings of a metric, of a
  string and of a map, and \<^verbatim>\<open>Format(time.RFC3339)\<close>. \<open>Inl\<close> is an error, with its
  message. With them, the platform: \<^verbatim>\<open>IntSize\<close> is the number of bits of Go's \<^verbatim>\<open>int\<close>,
  32 or 64 by the build.
\<close>

record ('v, 'f) lib =
  NewRequest :: "string \<Rightarrow> string \<Rightarrow> string option"
  Unmarshal :: "string \<Rightarrow> string + metadataIamToken"
  ToFloat64 :: "'v \<Rightarrow> string + 'f"
  Marshal_metric :: "'f yandexCloudMonitoringMetric \<Rightarrow> string + string"
  Marshal_string :: "string \<Rightarrow> string"
  Marshal_map :: "gomap \<Rightarrow> string"
  Format_RFC3339 :: "instant \<Rightarrow> string"
  IntSize :: nat

text \<open>
  What the world does during one call: the two readings of \<^verbatim>\<open>time.Now()\<close> in
  \<^verbatim>\<open>send\<close> (at the expiry test, and when the new expiry is computed), and the reply to
  each request.
\<close>

record env =
  Now_first :: instant
  Now_second :: instant
  http :: "request \<Rightarrow> http_reply"

subsection \<open>Lifecycle\<close>

definition Init :: "YandexCloudMonitoring \<Rightarrow> error option \<times> YandexCloudMonitoring" where
  "Init a =
     (let a1 = (if Timeout a \<le> 0 then a\<lparr>Timeout := defaultRequestTimeout\<rparr> else a);
          a2 = (if Endpoint a1 = [] then a1\<lparr>Endpoint := defaultEndpoint\<rparr> else a1);
          a3 = (if Service a2 = [] then a2\<lparr>Service := ''custom''\<rparr> else a2);
          a4 = (if metadataTokenURL a3 = []
                then a3\<lparr>metadataTokenURL := defaultMetadataTokenURL\<rparr> else a3);
          a5 = (if metadataFolderURL a4 = []
                then a4\<lparr>metadataFolderURL := defaultMetadataFolderURL\<rparr> else a4)
      in (None, a5\<lparr>client := True\<rparr>))"

definition Close :: "YandexCloudMonitoring \<Rightarrow> error option \<times> YandexCloudMonitoring" where
  "Close a = (None, a\<lparr>client := False\<rparr>)"

subsection \<open>The metadata service\<close>

definition getResponseFromMetadata ::
  "('v, 'f) lib \<Rightarrow> env \<Rightarrow> bool \<Rightarrow> string \<Rightarrow> (error + string) \<times> event list" where
  "getResponseFromMetadata lib e c metadataURL =
     (case NewRequest lib ''GET'' metadataURL of
        Some err \<Rightarrow> (Inl (CreatingRequest err), [])
      | None \<Rightarrow>
          let req = \<lparr>Method = ''GET'', URL = metadataURL, Query = [],
                     Header = Set [] ''Metadata-Flavor'' ''Google'', Body = []\<rparr>
          in if \<not> c then (Inl NilClient, [])
             else (case http e req of
                     DoFails err \<Rightarrow> (Inl (DoError err), [Do req])
                   | ReadAllFails code status err \<Rightarrow> (Inl (ReadAllError err), [Do req])
                   | Response code status body \<Rightarrow>
                       if code \<ge> 300 \<or> code < 200
                       then (Inl (MetadataStatus metadataURL code), [Do req])
                       else (Inr body, [Do req])))"

text \<open>
  The conversion \<^verbatim>\<open>int(x)\<close> of an \<^verbatim>\<open>int64\<close>: the low \<^verbatim>\<open>IntSize\<close> bits of \<open>x\<close>, read as
  a signed number. The result is held in 64 bits again, which is what
  \<^verbatim>\<open>time.Duration(expiresIn)\<close> makes of it in \<^verbatim>\<open>send\<close>.
\<close>

definition int_of_int64 :: "nat \<Rightarrow> 64 word \<Rightarrow> 64 word" where
  "int_of_int64 bits x = word_of_int (signed_take_bit (bits - 1) (sint x))"

definition getIAMTokenFromMetadata ::
  "('v, 'f) lib \<Rightarrow> env \<Rightarrow> YandexCloudMonitoring \<Rightarrow> (error + string \<times> 64 word) \<times> event list" where
  "getIAMTokenFromMetadata lib e a =
     (let tr0 = [Debugf (''Getting new IAM token in '' @ metadataTokenURL a)]
      in case getResponseFromMetadata lib e (client a) (metadataTokenURL a) of
           (Inl err, tr) \<Rightarrow> (Inl err, tr0 @ tr)
         | (Inr body, tr) \<Rightarrow>
             (case Unmarshal lib body of
                Inl err \<Rightarrow> (Inl (UnmarshalError err), tr0 @ tr)
              | Inr metadata \<Rightarrow>
                  if AccessToken metadata = [] \<or> ExpiresIn metadata = 0
                  then (Inl (NoCredentials (metadataTokenURL a)), tr0 @ tr)
                  else (Inr (AccessToken metadata,
                             int_of_int64 (IntSize lib) (ExpiresIn metadata)), tr0 @ tr)))"

definition Connect ::
  "('v, 'f) lib \<Rightarrow> env \<Rightarrow> YandexCloudMonitoring \<Rightarrow>
     error option \<times> YandexCloudMonitoring \<times> event list" where
  "Connect lib e a =
     (let tr0 = [Debugf (''Getting folder ID in '' @ metadataFolderURL a)]
      in case getResponseFromMetadata lib e (client a) (metadataFolderURL a) of
           (Inl err, tr) \<Rightarrow> (Some err, a, tr0 @ tr)
         | (Inr body, tr) \<Rightarrow>
             let a' = a\<lparr>folderID := body\<rparr>
             in if folderID a' = []
                then (Some (NoFolderID (metadataFolderURL a')), a', tr0 @ tr)
                else (None, a', tr0 @ tr @
                        [Infof (''Writing to Yandex.Cloud Monitoring URL: '' @ Endpoint a'),
                         Infof (''FolderID: '' @ folderID a')]))"

subsection \<open>Delivery\<close>

text \<open>
  The end of \<^verbatim>\<open>send\<close>, from the \<^verbatim>\<open>Authorization\<close> header on: \<open>a\<close> is the plugin after
  the token was looked at, \<open>req\<close> the request built so far, \<open>tr\<close> the events so far.
\<close>

definition send_Do ::
  "env \<Rightarrow> YandexCloudMonitoring \<Rightarrow> request \<Rightarrow> event list \<Rightarrow>
     error option \<times> YandexCloudMonitoring \<times> event list" where
  "send_Do e a req tr =
     (let req' = req\<lparr>Header := Set (Header req) ''Authorization'' (''Bearer '' @ iamToken a)\<rparr>
      in if \<not> client a then (Some NilClient, a, tr)
         else (case http e req' of
                 DoFails err \<Rightarrow> (Some (DoError err), a, tr @ [Do req'])
               | ReadAllFails code status err \<Rightarrow>
                   (Some (WriteBatchFailed code status), a, tr @ [Do req'])
               | Response code status body \<Rightarrow>
                   if code < 200 \<or> code > 299
                   then (Some (WriteBatchFailed code status), a, tr @ [Do req'])
                   else (None, a, tr @ [Do req'])))"

definition send ::
  "('v, 'f) lib \<Rightarrow> env \<Rightarrow> YandexCloudMonitoring \<Rightarrow> string \<Rightarrow>
     error option \<times> YandexCloudMonitoring \<times> event list" where
  "send lib e a body =
     (case NewRequest lib ''POST'' (Endpoint a) of
        Some err \<Rightarrow> (Some (NewRequestError err), a, [])
      | None \<Rightarrow>
          let req = \<lparr>Method = ''POST'', URL = Endpoint a,
                     Query = [(''folderId'', folderID a), (''service'', Service a)],
                     Header = Set [] ''Content-Type'' ''application/json'', Body = body\<rparr>;
              isTokenExpired = Before (iamTokenExpirationTime a) (Now_first e)
          in if iamToken a = [] \<or> isTokenExpired
             then (case getIAMTokenFromMetadata lib e a of
                     (Inl err, tr) \<Rightarrow> (Some err, a, tr)
                   | (Inr (token, expiresIn), tr) \<Rightarrow>
                       send_Do e
                         (a\<lparr>iamTokenExpirationTime := Add (Now_second e) (expiresIn * Second),
                            iamToken := token\<rparr>)
                         req tr)
             else send_Do e a req [])"

subsection \<open>Translation and publishing\<close>

text \<open>
  \<^verbatim>\<open>json.Marshal\<close> of a \<^verbatim>\<open>yandexCloudMonitoringMessage\<close>: the fields in the order of
  the struct; an empty \<^verbatim>\<open>ts\<close> or \<^verbatim>\<open>labels\<close> is left out (\<^verbatim>\<open>omitempty\<close>); a \<^verbatim>\<open>nil\<close>
  slice is \<^verbatim>\<open>null\<close>, any other an array; the first metric that cannot be encoded is
  the error of the whole.
\<close>

fun Marshal_metrics ::
  "('v, 'f) lib \<Rightarrow> 'f yandexCloudMonitoringMetric list \<Rightarrow> string + string list" where
  "Marshal_metrics lib [] = Inr []"
| "Marshal_metrics lib (m # ms) =
     (case Marshal_metric lib m of
        Inl err \<Rightarrow> Inl err
      | Inr s \<Rightarrow> (case Marshal_metrics lib ms of Inl err \<Rightarrow> Inl err | Inr ss \<Rightarrow> Inr (s # ss)))"

fun commas :: "string list \<Rightarrow> string" where
  "commas [] = []"
| "commas [s] = s"
| "commas (s # ss) = s @ '','' @ commas ss"

definition Marshal ::
  "('v, 'f) lib \<Rightarrow> 'f yandexCloudMonitoringMessage \<Rightarrow> string + string" where
  \<open>Marshal lib msg =
     (case (case Metrics msg of
              NilSlice \<Rightarrow> Inr ''null''
            | Slice ms \<Rightarrow>
                (case Marshal_metrics lib ms of
                   Inl err \<Rightarrow> Inl err
                 | Inr ss \<Rightarrow> Inr (''['' @ commas ss @ '']''))) of
        Inl err \<Rightarrow> Inl err
      | Inr metrics \<Rightarrow>
          Inr (''{''
               @ (if msg_TS msg = [] then []
                  else ''"ts":'' @ Marshal_string lib (msg_TS msg) @ '','')
               @ (if msg_Labels msg = [] then []
                  else ''"labels":'' @ Marshal_map lib (msg_Labels msg) @ '','')
               @ ''"metrics":'' @ metrics @ ''}''))\<close>

text \<open>
  The loops of \<^verbatim>\<open>Write\<close>: the inner one over the fields of the metric \<open>m\<close>, the outer
  one over the metrics. They carry the slice \<^verbatim>\<open>yandexCloudMonitoringMetrics\<close> and the
  events so far.
\<close>

fun Write_fields ::
  "('v, 'f) lib \<Rightarrow> 'v Metric \<Rightarrow> 'v Field list \<Rightarrow>
     'f yandexCloudMonitoringMetric slice \<times> event list \<Rightarrow>
     'f yandexCloudMonitoringMetric slice \<times> event list" where
  "Write_fields lib m [] acc = acc"
| "Write_fields lib m (field # rest) (yandexCloudMonitoringMetrics, tr) =
     (case ToFloat64 lib (FieldValue field) of
        Inl err \<Rightarrow>
          Write_fields lib m rest
            (yandexCloudMonitoringMetrics, tr @ [Errorf (''Skipping value: '' @ err)])
      | Inr val \<Rightarrow>
          Write_fields lib m rest
            (append_slice yandexCloudMonitoringMetrics
               \<lparr>Name = metric_Name m @ ''_'' @ Key field,
                Labels = replaceReservedTagNames (Tags m),
                MetricType = [],
                TS = Format_RFC3339 lib (Time m),
                Value = val\<rparr>,
             tr))"

fun Write_metrics ::
  "('v, 'f) lib \<Rightarrow> 'v Metric list \<Rightarrow>
     'f yandexCloudMonitoringMetric slice \<times> event list \<Rightarrow>
     'f yandexCloudMonitoringMetric slice \<times> event list" where
  "Write_metrics lib [] acc = acc"
| "Write_metrics lib (m # rest) acc =
     Write_metrics lib rest (Write_fields lib m (FieldList m) acc)"

definition Write ::
  "('v, 'f) lib \<Rightarrow> env \<Rightarrow> YandexCloudMonitoring \<Rightarrow> 'v Metric list \<Rightarrow>
     error option \<times> YandexCloudMonitoring \<times> event list" where
  "Write lib e a metrics =
     (case Write_metrics lib metrics (NilSlice, []) of
        (yandexCloudMonitoringMetrics, tr) \<Rightarrow>
          (case Marshal lib \<lparr>msg_TS = [], msg_Labels = [],
                              Metrics = yandexCloudMonitoringMetrics\<rparr> of
             Inl err \<Rightarrow> (Some (MarshalError err), a, tr)
           | Inr body \<Rightarrow>
               (case send lib e a (body @ [CHR 0x0A]) of
                  (err, a', tr') \<Rightarrow> (err, a', tr @ tr'))))"

section \<open>Vocabulary of the properties\<close>

text \<open>The key under which the loop of \<^verbatim>\<open>replaceReservedTagNames\<close> stores a tag.\<close>

definition label_key :: "string \<Rightarrow> string" where
  "label_key tagName = (if tagName = ''name'' then ''_name'' else tagName)"

text \<open>The requests among the events, the POSTs, and the number of GETs to a URL.\<close>

fun requests :: "event list \<Rightarrow> request list" where
  "requests [] = []"
| "requests (Do req # tr) = req # requests tr"
| "requests (Debugf s # tr) = requests tr"
| "requests (Infof s # tr) = requests tr"
| "requests (Errorf s # tr) = requests tr"

definition posts :: "event list \<Rightarrow> request list" where
  "posts tr = filter (\<lambda>req. Method req = ''POST'') (requests tr)"

definition metadata_calls :: "string \<Rightarrow> event list \<Rightarrow> nat" where
  "metadata_calls metadataURL tr =
     length (filter (\<lambda>req. Method req = ''GET'' \<and> URL req = metadataURL) (requests tr))"

text \<open>
  The translation in the words of the specification: a field coerces when
  \<^verbatim>\<open>ToFloat64\<close> gives a number; each such field of a metric gives one point; each other
  field gives one line of the log.
\<close>

definition coerces :: "('v, 'f) lib \<Rightarrow> 'v Field \<Rightarrow> bool" where
  "coerces lib field = (case ToFloat64 lib (FieldValue field) of Inl err \<Rightarrow> False | Inr val \<Rightarrow> True)"

definition MetricPoint :: "('v, 'f) lib \<Rightarrow> 'v Metric \<Rightarrow> 'v Field \<Rightarrow> 'f yandexCloudMonitoringMetric" where
  "MetricPoint lib m field =
     \<lparr>Name = metric_Name m @ ''_'' @ Key field,
      Labels = replaceReservedTagNames (Tags m),
      MetricType = [],
      TS = Format_RFC3339 lib (Time m),
      Value = projr (ToFloat64 lib (FieldValue field))\<rparr>"

definition skip :: "('v, 'f) lib \<Rightarrow> 'v Field \<Rightarrow> event" where
  "skip lib field = Errorf (''Skipping value: '' @ projl (ToFloat64 lib (FieldValue field)))"

definition translate :: "('v, 'f) lib \<Rightarrow> 'v Metric list \<Rightarrow> 'f yandexCloudMonitoringMetric list" where
  "translate lib metrics =
     concat (map (\<lambda>m. map (MetricPoint lib m) (filter (coerces lib) (FieldList m))) metrics)"

definition skips :: "('v, 'f) lib \<Rightarrow> 'v Metric list \<Rightarrow> event list" where
  "skips lib metrics =
     concat (map (\<lambda>m. map (skip lib) (filter (\<lambda>field. \<not> coerces lib field) (FieldList m))) metrics)"

text \<open>\<^verbatim>\<open>append(s, xs...)\<close>: the elements of \<open>xs\<close> appended one by one.\<close>

fun append_all :: "'a slice \<Rightarrow> 'a list \<Rightarrow> 'a slice" where
  "append_all s [] = s"
| "append_all s (x # xs) = append_all (append_slice s x) xs"

text \<open>
  The host agent calls \<^verbatim>\<open>Write\<close> again and again, one call after the other, each in its
  own circumstances and with its own metrics, whatever the calls before returned.
\<close>

fun Writes ::
  "('v, 'f) lib \<Rightarrow> YandexCloudMonitoring \<Rightarrow> (env \<times> 'v Metric list) list \<Rightarrow>
     YandexCloudMonitoring \<times> event list" where
  "Writes lib a [] = (a, [])"
| "Writes lib a ((e, metrics) # rest) =
     (case Write lib e a metrics of
        (err, a', tr) \<Rightarrow> (case Writes lib a' rest of (a'', tr') \<Rightarrow> (a'', tr @ tr')))"

text \<open>
  The requests of the plugin: the GET to a metadata URL, and the POST of a body by the
  plugin \<open>a\<close>, with the token it holds. The plugin after a refresh at the instant \<open>now\<close>.
  The result of a POST by its reply. The end of \<^verbatim>\<open>send\<close> in these words.
\<close>

definition metadata_request :: "string \<Rightarrow> request" where
  "metadata_request metadataURL =
     \<lparr>Method = ''GET'', URL = metadataURL, Query = [],
      Header = [(''Metadata-Flavor'', ''Google'')], Body = []\<rparr>"

definition post_request :: "YandexCloudMonitoring \<Rightarrow> string \<Rightarrow> request" where
  "post_request a body =
     \<lparr>Method = ''POST'', URL = Endpoint a,
      Query = [(''folderId'', folderID a), (''service'', Service a)],
      Header = [(''Content-Type'', ''application/json''),
                (''Authorization'', ''Bearer '' @ iamToken a)],
      Body = body\<rparr>"

definition refreshed :: "YandexCloudMonitoring \<Rightarrow> instant \<Rightarrow> string \<Rightarrow> 64 word \<Rightarrow> YandexCloudMonitoring" where
  "refreshed a now token expiresIn =
     a\<lparr>iamTokenExpirationTime := Add now (expiresIn * Second), iamToken := token\<rparr>"

definition outcome :: "http_reply \<Rightarrow> error option" where
  "outcome reply =
     (case reply of
        DoFails err \<Rightarrow> Some (DoError err)
      | ReadAllFails code status err \<Rightarrow> Some (WriteBatchFailed code status)
      | Response code status body \<Rightarrow>
          if 200 \<le> code \<and> code \<le> 299 then None else Some (WriteBatchFailed code status))"

definition deliver ::
  "env \<Rightarrow> YandexCloudMonitoring \<Rightarrow> string \<Rightarrow> event list \<Rightarrow>
     error option \<times> YandexCloudMonitoring \<times> event list" where
  "deliver e a body tr =
     (if \<not> client a then (Some NilClient, a, tr)
      else (outcome (http e (post_request a body)), a, tr @ [Do (post_request a body)]))"

text \<open>
  Sample circumstances, for the instances of the theorems: the plugin as \<^verbatim>\<open>Init\<close> leaves
  the zero value of the struct; a 64-bit build with library functions that accept every
  URL, decode a few token documents, take a field value \<open>Some n\<close> for the number \<open>n\<close> and \<open>None\<close> for a
  value of an unsupported type; a world where the clock stands at \<open>now\<close>, every GET is
  answered by \<^verbatim>\<open>200 OK\<close> with the body \<open>metadata\<close>, and every other request by \<open>reply\<close>.
\<close>

definition zero_plugin :: YandexCloudMonitoring where
  "zero_plugin =
     \<lparr>Timeout = 0, Endpoint = [], Service = [], metadataTokenURL = [], metadataFolderURL = [],
      folderID = [], iamToken = [], iamTokenExpirationTime = - 62135596800000000000,
      client = False\<rparr>"

definition sample_plugin :: YandexCloudMonitoring where
  "sample_plugin = snd (Init zero_plugin)"

definition sample_Unmarshal :: "string \<Rightarrow> string + metadataIamToken" where
  \<open>sample_Unmarshal body =
     (if body = ''{"access_token":"t1","expires_in":3600}''
      then Inr \<lparr>AccessToken = ''t1'', ExpiresIn = 3600, TokenType = []\<rparr>
      else if body = ''{"access_token":"","expires_in":3600}''
      then Inr \<lparr>AccessToken = [], ExpiresIn = 3600, TokenType = []\<rparr>
      else if body = ''{"access_token":"t1","expires_in":-1}''
      then Inr \<lparr>AccessToken = ''t1'', ExpiresIn = - 1, TokenType = []\<rparr>
      else if body = ''{"access_token":"t1","expires_in":9223372037}''
      then Inr \<lparr>AccessToken = ''t1'', ExpiresIn = 9223372037, TokenType = []\<rparr>
      else if body = ''{"access_token":"t1","expires_in":2147483648}''
      then Inr \<lparr>AccessToken = ''t1'', ExpiresIn = 2147483648, TokenType = []\<rparr>
      else Inl ''unexpected end of JSON input'')\<close>

definition sample_lib :: "(int option, int) lib" where
  "sample_lib =
     \<lparr>NewRequest = (\<lambda>method url. None),
      Unmarshal = sample_Unmarshal,
      ToFloat64 = (\<lambda>v. case v of None \<Rightarrow> Inl ''type unsupported'' | Some n \<Rightarrow> Inr n),
      Marshal_metric = (\<lambda>m. Inr (Name m)),
      Marshal_string = (\<lambda>s. s),
      Marshal_map = (\<lambda>m. []),
      Format_RFC3339 = (\<lambda>t. ''2023-06-06T11:10:50Z''),
      IntSize = 64\<rparr>"

definition sample_env :: "instant \<Rightarrow> string \<Rightarrow> http_reply \<Rightarrow> env" where
  "sample_env now metadata reply =
     \<lparr>Now_first = now, Now_second = now,
      http = (\<lambda>req. if Method req = ''GET'' then Response 200 ''200 OK'' metadata else reply)\<rparr>"

definition sample_metrics :: "int option Metric list" where
  "sample_metrics =
     [\<lparr>metric_Name = ''cpu'',
       FieldList = [Field ''usage_idle'' (Some 99), Field ''model'' None,
                    Field ''usage_user'' (Some 1)],
       Tags = [(''host'', ''vm1''), (''name'', ''core0'')],
       Time = 1686049850000000000\<rparr>,
      \<lparr>metric_Name = ''mem'', FieldList = [Field ''free'' (Some 5)], Tags = [],
       Time = 1686049850000000000\<rparr>]"

definition sample_token :: string where
  \<open>sample_token = ''{"access_token":"t1","expires_in":3600}''\<close>

definition sample_refreshed :: YandexCloudMonitoring where
  "sample_refreshed =
     fst (snd (send sample_lib (sample_env 0 sample_token (Response 200 ''200 OK'' []))
                 sample_plugin ''{}''))"

section \<open>Labels\<close>

lemma loop_step:
  "replaceReservedTagNames_loop ((k, v) # rest) m =
     replaceReservedTagNames_loop rest (m(label_key k \<mapsto> v))"
  by (simp add: label_key_def)

lemma loop_frame:
  "k \<notin> label_key ` fst ` set tags \<Longrightarrow> replaceReservedTagNames_loop tags m k = m k"
proof (induction tags arbitrary: m)
  case Nil
  then show ?case by simp
next
  case (Cons kv tags)
  obtain k' v' where kv: "kv = (k', v')" by (cases kv)
  from Cons.prems have "k \<noteq> label_key k'" and "k \<notin> label_key ` fst ` set tags"
    by (auto simp: kv)
  then show ?case
    by (simp add: kv loop_step Cons.IH del: replaceReservedTagNames_loop.simps)
qed

lemma loop_dom:
  "dom (replaceReservedTagNames_loop tags m) = dom m \<union> label_key ` fst ` set tags"
proof (induction tags arbitrary: m)
  case Nil
  then show ?case by simp
next
  case (Cons kv tags)
  obtain k' v' where kv: "kv = (k', v')" by (cases kv)
  show ?case
    by (auto simp add: kv loop_step Cons.IH simp del: replaceReservedTagNames_loop.simps)
qed

lemma loop_entry:
  "distinct (map (\<lambda>kv. label_key (fst kv)) tags) \<Longrightarrow> (k, v) \<in> set tags \<Longrightarrow>
     replaceReservedTagNames_loop tags m (label_key k) = Some v"
proof (induction tags arbitrary: m)
  case Nil
  then show ?case by simp
next
  case (Cons kv tags)
  obtain k' v' where kv: "kv = (k', v')" by (cases kv)
  show ?case
  proof (cases "(k, v) = (k', v')")
    case True
    from Cons.prems(1) have "label_key k' \<notin> label_key ` fst ` set tags"
      by (auto simp: kv)
    then show ?thesis
      using True by (simp add: kv loop_step loop_frame del: replaceReservedTagNames_loop.simps)
  next
    case False
    with Cons.prems have "(k, v) \<in> set tags" and "distinct (map (\<lambda>kv. label_key (fst kv)) tags)"
      by (auto simp: kv)
    then show ?thesis
      by (simp add: kv loop_step Cons.IH del: replaceReservedTagNames_loop.simps)
  qed
qed

lemma label_key_distinct:
  assumes "is_gomap tags"
    and "\<not> (''name'' \<in> fst ` set tags \<and> ''_name'' \<in> fst ` set tags)"
  shows "distinct (map (\<lambda>kv. label_key (fst kv)) tags)"
proof -
  have "inj_on label_key (fst ` set tags)"
  proof (rule inj_onI)
    fix x y
    assume "x \<in> fst ` set tags" and "y \<in> fst ` set tags" and "label_key x = label_key y"
    with assms(2) show "x = y"
      by (metis label_key_def)
  qed
  moreover have "distinct (map fst tags)"
    using assms(1) by (simp add: is_gomap_def)
  ultimately have "distinct (map label_key (map fst tags))"
    by (simp only: distinct_map set_map)
  then show ?thesis by (simp add: comp_def)
qed

lemma loop_no_name:
  "''name'' \<notin> fst ` set tags \<Longrightarrow> distinct (map fst tags) \<Longrightarrow>
     replaceReservedTagNames_loop tags m = m ++ map_of tags"
proof (induction tags arbitrary: m)
  case Nil
  then show ?case by simp
next
  case (Cons kv tags)
  obtain k' v' where kv: "kv = (k', v')" by (cases kv)
  from Cons.prems have k': "k' \<noteq> ''name''" and "k' \<notin> fst ` set tags"
    and rest: "''name'' \<notin> fst ` set tags" "distinct (map fst tags)"
    by (auto simp: kv)
  then have "k' \<notin> dom (map_of tags)"
    by (simp add: dom_map_of_conv_image_fst)
  then have twist: "m(k' \<mapsto> v') ++ map_of tags = (m ++ map_of tags)(k' \<mapsto> v')"
    by (rule map_add_upd_left)
  have "replaceReservedTagNames_loop ((k', v') # tags) m =
      replaceReservedTagNames_loop tags (m(k' \<mapsto> v'))"
    using k' by simp
  also have "\<dots> = m(k' \<mapsto> v') ++ map_of tags"
    by (rule Cons.IH [OF rest])
  also have "\<dots> = m ++ map_of ((k', v') # tags)"
    by (simp only: twist) simp
  finally show ?case
    by (simp only: kv)
qed

text \<open>
  C3, as the code has it. Every tag of a tag mapping that does not hold both the key
  \<^verbatim>\<open>name\<close> and the key \<^verbatim>\<open>_name\<close> is in the labels with its value, under its own key,
  or under \<^verbatim>\<open>_name\<close> when its key is \<^verbatim>\<open>name\<close>; and the labels have no other key.
\<close>

theorem replaceReservedTagNames_labels:
  assumes "is_gomap tags"
    and "\<not> (''name'' \<in> fst ` set tags \<and> ''_name'' \<in> fst ` set tags)"
    and "(tagName, tagValue) \<in> set tags"
  shows "replaceReservedTagNames tags (if tagName = ''name'' then ''_name'' else tagName)
           = Some tagValue
         \<and> dom (replaceReservedTagNames tags) = label_key ` fst ` set tags"
proof -
  have "replaceReservedTagNames tags (label_key tagName) = Some tagValue"
    unfolding replaceReservedTagNames_def
    using label_key_distinct [OF assms(1,2)] assms(3) by (rule loop_entry)
  moreover have "dom (replaceReservedTagNames tags) = label_key ` fst ` set tags"
    by (simp add: replaceReservedTagNames_def loop_dom)
  ultimately show ?thesis
    by (simp add: label_key_def)
qed

theorem replaceReservedTagNames_labels_witness:
  "is_gomap [(''host'', ''vm1''), (''name'', ''core0'')]
   \<and> replaceReservedTagNames [(''host'', ''vm1''), (''name'', ''core0'')] ''_name'' = Some ''core0''
   \<and> dom (replaceReservedTagNames [(''host'', ''vm1''), (''name'', ''core0'')]) = {''host'', ''_name''}"
proof -
  have g: "is_gomap [(''host'', ''vm1''), (''name'', ''core0'')]"
    by (simp add: is_gomap_def)
  have n: "\<not> (''name'' \<in> fst ` set [(''host'', ''vm1''), (''name'', ''core0'')]
            \<and> ''_name'' \<in> fst ` set [(''host'', ''vm1''), (''name'', ''core0'')])"
    by simp
  have t: "(''name'', ''core0'') \<in> set [(''host'', ''vm1''), (''name'', ''core0'')]"
    by simp
  show ?thesis
    using g replaceReservedTagNames_labels [OF g n t] by (simp add: label_key_def)
qed

text \<open>
  C3, as it is written, at the tag mapping \<^verbatim>\<open>{name: a, _name: b}\<close>: whichever of the
  two tags the loop visits first is lost, the other is under \<^verbatim>\<open>_name\<close>.
\<close>

theorem replaceReservedTagNames_collision:
  "is_gomap [(''name'', ''a''), (''_name'', ''b'')]
   \<and> replaceReservedTagNames [(''name'', ''a''), (''_name'', ''b'')] ''_name'' \<noteq> Some ''a''
   \<and> is_gomap [(''_name'', ''b''), (''name'', ''a'')]
   \<and> replaceReservedTagNames [(''_name'', ''b''), (''name'', ''a'')] ''_name'' \<noteq> Some ''b''"
  by (simp add: is_gomap_def replaceReservedTagNames_def)

text \<open>
  C9. The labels that \<^verbatim>\<open>replaceReservedTagNames\<close> returns have no key \<^verbatim>\<open>name\<close>, and
  replacing the reserved names in them, in whatever order the loop visits them, gives the
  same labels again.
\<close>

theorem replaceReservedTagNames_idempotent:
  assumes "is_gomap newTags" and "map_of newTags = replaceReservedTagNames tagNames"
  shows "replaceReservedTagNames newTags = replaceReservedTagNames tagNames
         \<and> replaceReservedTagNames tagNames ''name'' = None"
proof -
  have none: "''name'' \<notin> dom (replaceReservedTagNames tagNames)"
    by (auto simp: replaceReservedTagNames_def loop_dom label_key_def)
  then have "''name'' \<notin> fst ` set newTags"
    by (simp add: assms(2) [symmetric] dom_map_of_conv_image_fst)
  then have "replaceReservedTagNames newTags = Map.empty ++ map_of newTags"
    using assms(1) unfolding replaceReservedTagNames_def is_gomap_def
    by (rule loop_no_name)
  then show ?thesis
    using none by (simp add: assms(2) domIff)
qed

theorem replaceReservedTagNames_idempotent_witness:
  "is_gomap [(''_name'', ''core0''), (''host'', ''vm1'')]
   \<and> map_of [(''_name'', ''core0''), (''host'', ''vm1'')]
       = replaceReservedTagNames [(''host'', ''vm1''), (''name'', ''core0'')]
   \<and> replaceReservedTagNames [(''_name'', ''core0''), (''host'', ''vm1'')]
       = replaceReservedTagNames [(''host'', ''vm1''), (''name'', ''core0'')]"
proof -
  have g: "is_gomap [(''_name'', ''core0''), (''host'', ''vm1'')]"
    by (simp add: is_gomap_def)
  have m: "map_of [(''_name'', ''core0''), (''host'', ''vm1'')]
      = replaceReservedTagNames [(''host'', ''vm1''), (''name'', ''core0'')]"
    by (auto simp: replaceReservedTagNames_def fun_eq_iff)
  show ?thesis
    using g m replaceReservedTagNames_idempotent [OF g m] by simp
qed

section \<open>Requests and results of the calls\<close>

lemma requests_append: "requests (tr @ tr') = requests tr @ requests tr'"
  by (induction tr rule: requests.induct) simp_all

lemma getResponseFromMetadata_eq:
  "getResponseFromMetadata lib e c u =
     (case NewRequest lib ''GET'' u of
        Some err \<Rightarrow> (Inl (CreatingRequest err), [])
      | None \<Rightarrow>
          if \<not> c then (Inl NilClient, [])
          else (case http e (metadata_request u) of
                  DoFails err \<Rightarrow> Inl (DoError err)
                | ReadAllFails code status err \<Rightarrow> Inl (ReadAllError err)
                | Response code status body \<Rightarrow>
                    if code \<ge> 300 \<or> code < 200 then Inl (MetadataStatus u code) else Inr body,
                [Do (metadata_request u)]))"
  by (simp add: getResponseFromMetadata_def metadata_request_def Let_def
      split: option.split http_reply.split)

lemma getResponseFromMetadata_requests:
  "requests (snd (getResponseFromMetadata lib e c u)) =
     (if NewRequest lib ''GET'' u = None \<and> c then [metadata_request u] else [])"
  by (simp add: getResponseFromMetadata_eq split: option.split)

lemma getResponseFromMetadata_Inr:
  "getResponseFromMetadata lib e c u = (Inr body, tr) \<Longrightarrow>
     NewRequest lib ''GET'' u = None \<and> c \<and> tr = [Do (metadata_request u)]"
  by (auto simp add: getResponseFromMetadata_eq split: option.splits if_splits http_reply.splits)

lemma getIAMTokenFromMetadata_requests:
  "requests (snd (getIAMTokenFromMetadata lib e a)) =
     (if NewRequest lib ''GET'' (metadataTokenURL a) = None \<and> client a
      then [metadata_request (metadataTokenURL a)] else [])"
proof -
  obtain r tr where g: "getResponseFromMetadata lib e (client a) (metadataTokenURL a) = (r, tr)"
    by (cases "getResponseFromMetadata lib e (client a) (metadataTokenURL a)")
  have "requests (snd (getIAMTokenFromMetadata lib e a)) = requests tr"
    by (simp add: getIAMTokenFromMetadata_def g Let_def split: sum.split)
  also have "\<dots> = requests (snd (getResponseFromMetadata lib e (client a) (metadataTokenURL a)))"
    by (simp add: g)
  finally show ?thesis
    by (simp only: getResponseFromMetadata_requests)
qed

lemma getIAMTokenFromMetadata_Inr:
  assumes "getIAMTokenFromMetadata lib e a = (Inr (token, expiresIn), tr)"
  shows "NewRequest lib ''GET'' (metadataTokenURL a) = None \<and> client a
         \<and> token \<noteq> []"
proof -
  obtain r tr' where g: "getResponseFromMetadata lib e (client a) (metadataTokenURL a) = (r, tr')"
    by (cases "getResponseFromMetadata lib e (client a) (metadataTokenURL a)")
  from assms obtain body where r: "r = Inr body"
    by (cases r) (simp_all add: getIAMTokenFromMetadata_def g Let_def)
  from assms have "token \<noteq> []"
    by (auto simp add: getIAMTokenFromMetadata_def g r Let_def split: sum.splits if_splits)
  with getResponseFromMetadata_Inr [OF g [unfolded r]] show ?thesis
    by simp
qed

lemma send_Do_deliver:
  assumes "Endpoint a = Endpoint a0" and "folderID a = folderID a0" and "Service a = Service a0"
  shows "send_Do e a
           \<lparr>Method = ''POST'', URL = Endpoint a0,
            Query = [(''folderId'', folderID a0), (''service'', Service a0)],
            Header = Set [] ''Content-Type'' ''application/json'', Body = body\<rparr> tr =
         deliver e a body tr"
proof (cases "client a")
  case False
  then show ?thesis
    by (simp add: send_Do_def deliver_def)
next
  case True
  have req: "\<lparr>Method = ''POST'', URL = Endpoint a0,
            Query = [(''folderId'', folderID a0), (''service'', Service a0)],
            Header = Set [] ''Content-Type'' ''application/json'', Body = body\<rparr>
          \<lparr>Header := Set (Header \<lparr>Method = ''POST'', URL = Endpoint a0,
            Query = [(''folderId'', folderID a0), (''service'', Service a0)],
            Header = Set [] ''Content-Type'' ''application/json'', Body = body\<rparr>)
              ''Authorization'' (''Bearer '' @ iamToken a)\<rparr> = post_request a body"
    by (simp add: post_request_def assms)
  show ?thesis
    unfolding send_Do_def Let_def req
    by (cases "http e (post_request a body)") (auto simp add: True deliver_def outcome_def)
qed

lemma send_eq:
  "send lib e a body =
     (case NewRequest lib ''POST'' (Endpoint a) of
        Some err \<Rightarrow> (Some (NewRequestError err), a, [])
      | None \<Rightarrow>
          if iamToken a = [] \<or> Before (iamTokenExpirationTime a) (Now_first e)
          then (case getIAMTokenFromMetadata lib e a of
                  (Inl err, tr) \<Rightarrow> (Some err, a, tr)
                | (Inr (token, expiresIn), tr) \<Rightarrow>
                    deliver e (refreshed a (Now_second e) token expiresIn) body tr)
          else deliver e a body [])"
proof -
  have fresh: "send_Do e (a\<lparr>iamTokenExpirationTime := Add (Now_second e) (expiresIn * Second),
                            iamToken := token\<rparr>)
           \<lparr>Method = ''POST'', URL = Endpoint a,
            Query = [(''folderId'', folderID a), (''service'', Service a)],
            Header = Set [] ''Content-Type'' ''application/json'', Body = body\<rparr> tr =
         deliver e (refreshed a (Now_second e) token expiresIn) body tr" for token expiresIn tr
    unfolding refreshed_def by (rule send_Do_deliver) simp_all
  have cached: "send_Do e a
           \<lparr>Method = ''POST'', URL = Endpoint a,
            Query = [(''folderId'', folderID a), (''service'', Service a)],
            Header = Set [] ''Content-Type'' ''application/json'', Body = body\<rparr> tr =
         deliver e a body tr" for tr
    by (rule send_Do_deliver) simp_all
  show ?thesis
    unfolding send_def Let_def fresh cached ..
qed


lemma posts_append: "posts (tr @ tr') = posts tr @ posts tr'"
  by (simp add: posts_def requests_append)

lemma metadata_calls_append:
  "metadata_calls u (tr @ tr') = metadata_calls u tr + metadata_calls u tr'"
  by (simp add: metadata_calls_def requests_append)

lemma getIAMTokenFromMetadata_posts: "posts (snd (getIAMTokenFromMetadata lib e a)) = []"
  by (simp add: posts_def getIAMTokenFromMetadata_requests metadata_request_def)

lemma getIAMTokenFromMetadata_calls:
  "metadata_calls u (snd (getIAMTokenFromMetadata lib e a)) =
     (if NewRequest lib ''GET'' (metadataTokenURL a) = None \<and> client a \<and> u = metadataTokenURL a
      then 1 else 0)"
  by (auto simp add: metadata_calls_def getIAMTokenFromMetadata_requests metadata_request_def)

lemma deliver_results:
  "fst (snd (deliver e a body tr)) = a"
  "posts (snd (snd (deliver e a body tr))) = posts tr @ (if client a then [post_request a body] else [])"
  "metadata_calls u (snd (snd (deliver e a body tr))) = metadata_calls u tr"
  "client a \<Longrightarrow> fst (deliver e a body tr) = outcome (http e (post_request a body))"
  by (simp_all add: deliver_def posts_def metadata_calls_def requests_append post_request_def)


lemma send_no_request:
  "NewRequest lib ''POST'' (Endpoint a) = Some x \<Longrightarrow>
     send lib e a body = (Some (NewRequestError x), a, [])"
  by (simp add: send_eq)

lemma send_cached:
  "NewRequest lib ''POST'' (Endpoint a) = None \<Longrightarrow> iamToken a \<noteq> [] \<Longrightarrow>
   \<not> Before (iamTokenExpirationTime a) (Now_first e) \<Longrightarrow>
     send lib e a body = deliver e a body []"
  by (simp add: send_eq)

lemma send_refresh_failed:
  "NewRequest lib ''POST'' (Endpoint a) = None \<Longrightarrow>
   iamToken a = [] \<or> Before (iamTokenExpirationTime a) (Now_first e) \<Longrightarrow>
   getIAMTokenFromMetadata lib e a = (Inl err, tr) \<Longrightarrow>
     send lib e a body = (Some err, a, tr)"
  by (simp add: send_eq)

lemma send_refreshed:
  "NewRequest lib ''POST'' (Endpoint a) = None \<Longrightarrow>
   iamToken a = [] \<or> Before (iamTokenExpirationTime a) (Now_first e) \<Longrightarrow>
   getIAMTokenFromMetadata lib e a = (Inr (token, expiresIn), tr) \<Longrightarrow>
     send lib e a body = deliver e (refreshed a (Now_second e) token expiresIn) body tr"
  by (simp add: send_eq)

text \<open>Whatever \<^verbatim>\<open>send\<close> does, it is one of these four.\<close>

lemma send_cases:
  obtains (no_request) x where "NewRequest lib ''POST'' (Endpoint a) = Some x"
      and "send lib e a body = (Some (NewRequestError x), a, [])"
  | (cached) "NewRequest lib ''POST'' (Endpoint a) = None"
      and "iamToken a \<noteq> []" and "\<not> Before (iamTokenExpirationTime a) (Now_first e)"
      and "send lib e a body = deliver e a body []"
  | (refresh_failed) err tr where "NewRequest lib ''POST'' (Endpoint a) = None"
      and "iamToken a = [] \<or> Before (iamTokenExpirationTime a) (Now_first e)"
      and "getIAMTokenFromMetadata lib e a = (Inl err, tr)"
      and "send lib e a body = (Some err, a, tr)"
  | (refreshed) token expiresIn tr where "NewRequest lib ''POST'' (Endpoint a) = None"
      and "iamToken a = [] \<or> Before (iamTokenExpirationTime a) (Now_first e)"
      and "getIAMTokenFromMetadata lib e a = (Inr (token, expiresIn), tr)"
      and "send lib e a body = deliver e (refreshed a (Now_second e) token expiresIn) body tr"
proof (cases "NewRequest lib ''POST'' (Endpoint a)")
  case (Some x)
  then show ?thesis
    using no_request send_no_request by blast
next
  case None
  show ?thesis
  proof (cases "iamToken a = [] \<or> Before (iamTokenExpirationTime a) (Now_first e)")
    case False
    then show ?thesis
      using cached [OF None] send_cached [OF None] by blast
  next
    case True
    obtain r tr where g: "getIAMTokenFromMetadata lib e a = (r, tr)"
      by (cases "getIAMTokenFromMetadata lib e a")
    show ?thesis
    proof (cases r)
      case (Inl err)
      then show ?thesis
        using refresh_failed [OF None True] send_refresh_failed [OF None True] g by blast
    next
      case (Inr p)
      obtain token expiresIn where "p = (token, expiresIn)" by (cases p)
      then show ?thesis
        using refreshed [OF None True] send_refreshed [OF None True] g Inr by blast
    qed
  qed
qed

lemma refreshed_fields:
  "client (refreshed a now token expiresIn) = client a"
  "Endpoint (refreshed a now token expiresIn) = Endpoint a"
  "Service (refreshed a now token expiresIn) = Service a"
  "folderID (refreshed a now token expiresIn) = folderID a"
  "metadataTokenURL (refreshed a now token expiresIn) = metadataTokenURL a"
  "metadataFolderURL (refreshed a now token expiresIn) = metadataFolderURL a"
  "Timeout (refreshed a now token expiresIn) = Timeout a"
  "iamToken (refreshed a now token expiresIn) = token"
  "iamTokenExpirationTime (refreshed a now token expiresIn) = Add now (expiresIn * Second)"
  by (simp_all add: refreshed_def)

section \<open>Translation\<close>

lemma elems_append_all: "elems (append_all s xs) = elems s @ xs"
  by (induction xs arbitrary: s) (simp_all add: append_slice_def)

lemma append_all_append: "append_all (append_all s xs) ys = append_all s (xs @ ys)"
  by (induction xs arbitrary: s) simp_all

lemma Write_fields_eq:
  "Write_fields lib m fs (s, tr) =
     (append_all s (map (MetricPoint lib m) (filter (coerces lib) fs)),
      tr @ map (skip lib) (filter (\<lambda>field. \<not> coerces lib field) fs))"
proof (induction fs arbitrary: s tr)
  case Nil
  then show ?case by simp
next
  case (Cons field fs)
  show ?case
  proof (cases "ToFloat64 lib (FieldValue field)")
    case (Inl err)
    then show ?thesis
      by (simp add: Cons.IH coerces_def skip_def)
  next
    case (Inr val)
    then show ?thesis
      by (simp add: Cons.IH coerces_def MetricPoint_def)
  qed
qed

lemma Write_metrics_eq:
  "Write_metrics lib metrics (s, tr) =
     (append_all s (translate lib metrics), tr @ skips lib metrics)"
proof (induction metrics arbitrary: s tr)
  case Nil
  then show ?case by (simp add: translate_def skips_def)
next
  case (Cons m metrics)
  show ?case
    by (simp add: Write_fields_eq Cons.IH append_all_append translate_def skips_def)
qed

lemma Write_eq:
  "Write lib e a metrics =
     (case Marshal lib \<lparr>msg_TS = [], msg_Labels = [],
                         Metrics = append_all NilSlice (translate lib metrics)\<rparr> of
        Inl err \<Rightarrow> (Some (MarshalError err), a, skips lib metrics)
      | Inr body \<Rightarrow>
          (case send lib e a (body @ [CHR 0x0A]) of
             (err, a', tr) \<Rightarrow> (err, a', skips lib metrics @ tr)))"
  by (simp add: Write_def Write_metrics_eq)

text \<open>
  C4. The loops of \<^verbatim>\<open>Write\<close> give, for each metric in turn and for each of its fields
  that coerces, in the order of the fields, one point named by the name of the metric, an
  underscore and the key of the field; for each field that does not coerce they log one
  line and go on. So a metric with N fields that coerce and M that do not gives N points
  and M lines, and \<^verbatim>\<open>Write\<close> goes on to encode and send the points whatever M is.
\<close>

theorem Write_translation:
  "elems (fst (Write_metrics lib metrics (NilSlice, []))) = translate lib metrics
   \<and> snd (Write_metrics lib metrics (NilSlice, [])) = skips lib metrics
   \<and> map Name (translate lib metrics) =
       concat (map (\<lambda>m. map (\<lambda>field. metric_Name m @ ''_'' @ Key field)
                           (filter (coerces lib) (FieldList m))) metrics)
   \<and> length (translate lib metrics) =
       sum_list (map (\<lambda>m. length (filter (coerces lib) (FieldList m))) metrics)
   \<and> length (skips lib metrics) =
       sum_list (map (\<lambda>m. length (filter (\<lambda>field. \<not> coerces lib field) (FieldList m))) metrics)
   \<and> Write lib e a metrics =
       (case Marshal lib \<lparr>msg_TS = [], msg_Labels = [],
                           Metrics = append_all NilSlice (translate lib metrics)\<rparr> of
          Inl err \<Rightarrow> (Some (MarshalError err), a, skips lib metrics)
        | Inr body \<Rightarrow>
            (case send lib e a (body @ [CHR 0x0A]) of
               (err, a', tr) \<Rightarrow> (err, a', skips lib metrics @ tr)))"
proof -
  have "map Name (translate lib metrics) =
       concat (map (\<lambda>m. map (\<lambda>field. metric_Name m @ ''_'' @ Key field)
                           (filter (coerces lib) (FieldList m))) metrics)"
    by (simp add: translate_def map_concat comp_def MetricPoint_def)
  moreover have "length (translate lib metrics) =
       sum_list (map (\<lambda>m. length (filter (coerces lib) (FieldList m))) metrics)"
    by (simp add: translate_def length_concat comp_def)
  moreover have "length (skips lib metrics) =
       sum_list (map (\<lambda>m. length (filter (\<lambda>field. \<not> coerces lib field) (FieldList m))) metrics)"
    by (simp add: skips_def length_concat comp_def)
  ultimately show ?thesis
    by (simp add: Write_metrics_eq elems_append_all Write_eq)
qed

theorem Write_translation_witness:
  "map Name (elems (fst (Write_metrics sample_lib sample_metrics (NilSlice, []))))
     = [''cpu_usage_idle'', ''cpu_usage_user'', ''mem_free'']
   \<and> snd (Write_metrics sample_lib sample_metrics (NilSlice, []))
     = [Errorf ''Skipping value: type unsupported'']"
  using Write_translation [of sample_lib sample_metrics]
  by (simp add: skips_def skip_def coerces_def sample_lib_def sample_metrics_def)

section \<open>Delivery\<close>

lemmas sample_defs =
  sample_plugin_def zero_plugin_def Init_def sample_lib_def sample_env_def sample_Unmarshal_def
  defaultRequestTimeout_def defaultEndpoint_def defaultMetadataTokenURL_def
  defaultMetadataFolderURL_def

lemmas call_defs =
  send_def send_Do_def getIAMTokenFromMetadata_def getResponseFromMetadata_def
  int_of_int64_def Before_def Add_def Second_def Let_def



lemma requests_skips: "requests (skips lib metrics) = []"
proof -
  have fields: "requests (map (skip lib) fs) = []" for fs
    by (induction fs) (simp_all add: skip_def)
  show ?thesis
    unfolding skips_def
    by (induction metrics) (simp_all add: requests_append fields)
qed

text \<open>
  C6. When \<^verbatim>\<open>send\<close> needs a token and \<^verbatim>\<open>getIAMTokenFromMetadata\<close> returns an error,
  \<^verbatim>\<open>send\<close> returns that error, leaves the plugin as it was, and hands no POST to the
  client; so does \<^verbatim>\<open>Write\<close>, for any metrics it could encode.
\<close>

theorem send_aborts_without_token:
  assumes "NewRequest lib ''POST'' (Endpoint a) = None"
    and "iamToken a = [] \<or> Before (iamTokenExpirationTime a) (Now_first e)"
    and "getIAMTokenFromMetadata lib e a = (Inl err, tr)"
  shows "send lib e a body = (Some err, a, tr) \<and> posts tr = []
       \<and> (Marshal lib \<lparr>msg_TS = [], msg_Labels = [],
                          Metrics = append_all NilSlice (translate lib metrics)\<rparr> = Inr b
            \<longrightarrow> Write lib e a metrics = (Some err, a, skips lib metrics @ tr)
                \<and> posts (skips lib metrics @ tr) = [])"
proof -
  have s: "send lib e a body = (Some err, a, tr)" for body
    using assms by (rule send_refresh_failed)
  have p: "posts tr = []"
    using getIAMTokenFromMetadata_posts [of lib e a] by (simp add: assms(3))
  have "posts (skips lib metrics @ tr) = []"
    by (simp add: posts_append p) (simp add: posts_def requests_skips)
  then show ?thesis
    by (simp add: s p Write_eq)
qed

theorem send_aborts_without_token_witness:
  \<open>send sample_lib
      (sample_env 0 [] (Response 200 ''200 OK'' [])) sample_plugin ''{}''
     = (Some (UnmarshalError ''unexpected end of JSON input''), sample_plugin,
        [Debugf (''Getting new IAM token in '' @ defaultMetadataTokenURL),
         Do (metadata_request defaultMetadataTokenURL)])
   \<and> posts [Debugf (''Getting new IAM token in '' @ defaultMetadataTokenURL),
             Do (metadata_request defaultMetadataTokenURL)] = []
   \<and> Write sample_lib (sample_env 0 [] (Response 200 ''200 OK'' [])) sample_plugin sample_metrics
     = (Some (UnmarshalError ''unexpected end of JSON input''), sample_plugin,
        [Errorf ''Skipping value: type unsupported'',
         Debugf (''Getting new IAM token in '' @ defaultMetadataTokenURL),
         Do (metadata_request defaultMetadataTokenURL)])\<close>
proof -
  let ?e = \<open>sample_env 0 [] (Response 200 ''200 OK'' [])\<close>
  have h1: "NewRequest sample_lib ''POST'' (Endpoint sample_plugin) = None"
    by (simp add: sample_lib_def)
  have h2: "iamToken sample_plugin = []
      \<or> Before (iamTokenExpirationTime sample_plugin) (Now_first ?e)"
    by (simp add: sample_defs)
  have h3: "getIAMTokenFromMetadata sample_lib ?e sample_plugin
      = (Inl (UnmarshalError ''unexpected end of JSON input''),
         [Debugf (''Getting new IAM token in '' @ defaultMetadataTokenURL),
          Do (metadata_request defaultMetadataTokenURL)])"
    by (simp add: call_defs sample_defs metadata_request_def)
  have m: \<open>Marshal sample_lib \<lparr>msg_TS = [], msg_Labels = [],
        Metrics = append_all NilSlice (translate sample_lib sample_metrics)\<rparr>
      = Inr ''{"metrics":[cpu_usage_idle,cpu_usage_user,mem_free]}''\<close>
    by (simp add: Marshal_def translate_def coerces_def MetricPoint_def append_slice_def
        sample_lib_def sample_metrics_def)
  have s: "skips sample_lib sample_metrics = [Errorf ''Skipping value: type unsupported'']"
    by (simp add: skips_def skip_def coerces_def sample_lib_def sample_metrics_def)
  from send_aborts_without_token [OF h1 h2 h3, of "''{}''" sample_metrics] m show ?thesis
    by (simp add: s)
qed

section \<open>The token\<close>

lemma send_refresh_calls:
  assumes "NewRequest lib ''POST'' (Endpoint a) = None"
    and "iamToken a = [] \<or> Before (iamTokenExpirationTime a) (Now_first e)"
    and "NewRequest lib ''GET'' (metadataTokenURL a) = None" and "client a"
  shows "metadata_calls (metadataTokenURL a) (snd (snd (send lib e a body))) = 1"
proof -
  obtain r tr where g: "getIAMTokenFromMetadata lib e a = (r, tr)"
    by (cases "getIAMTokenFromMetadata lib e a")
  have calls: "metadata_calls (metadataTokenURL a) tr = 1"
    using getIAMTokenFromMetadata_calls [of "metadataTokenURL a" lib e a] assms(3,4)
    by (simp add: g)
  show ?thesis
  proof (cases r)
    case (Inl err)
    then show ?thesis
      using send_refresh_failed [OF assms(1,2)] g calls by simp
  next
    case (Inr p)
    obtain token expiresIn where "p = (token, expiresIn)" by (cases p)
    then show ?thesis
      using send_refreshed [OF assms(1,2)] g Inr calls by (simp add: deliver_results)
  qed
qed

lemma send_cached_results:
  assumes "NewRequest lib ''POST'' (Endpoint a) = None" and "iamToken a \<noteq> []"
    and "\<not> Before (iamTokenExpirationTime a) (Now_first e)" and "client a"
  shows "send lib e a body =
           (outcome (http e (post_request a body)), a, [Do (post_request a body)])"
  using send_cached [OF assms(1-3)] assms(4) by (simp add: deliver_def)

lemma send_refreshed_state:
  assumes "NewRequest lib ''POST'' (Endpoint a) = None"
    and "iamToken a = [] \<or> Before (iamTokenExpirationTime a) (Now_first e)"
    and "getIAMTokenFromMetadata lib e a = (Inr (token, expiresIn), tr)"
  shows "fst (snd (send lib e a body)) = refreshed a (Now_second e) token expiresIn"
  using send_refreshed [OF assms] by (simp add: deliver_results)

text \<open>
  C1, as the code has it. After a \<^verbatim>\<open>send\<close> that refreshed the token at the instant T
  from a metadata response with the access token \<^verbatim>\<open>t1\<close> and \<^verbatim>\<open>expires_in\<close> 3600, every
  \<^verbatim>\<open>send\<close> at an instant from T to T + 3600 s, both included, makes no metadata call,
  POSTs with \<^verbatim>\<open>Bearer t1\<close> and leaves the plugin as it is; a \<^verbatim>\<open>send\<close> at an instant
  after T + 3600 s makes exactly one call to the token URL.
\<close>

theorem token_caching_window:
  assumes "NewRequest lib ''POST'' (Endpoint a0) = None"
    and "iamToken a0 = [] \<or> Before (iamTokenExpirationTime a0) (Now_first e0)"
    and "getIAMTokenFromMetadata lib e0 a0 = (Inr (''t1'', 3600), tr0)"
    and "send lib e0 a0 body0 = (err0, a1, tr1)"
    and "T = Now_second e0"
  shows "iamToken a1 = ''t1'' \<and> iamTokenExpirationTime a1 = T + 3600 * 1000000000
       \<and> (T \<le> Now_first e \<and> Now_first e \<le> T + 3600 * 1000000000
            \<longrightarrow> metadata_calls (metadataTokenURL a1) (snd (snd (send lib e a1 body))) = 0
                \<and> requests (snd (snd (send lib e a1 body))) = [post_request a1 body]
                \<and> map_of (Header (post_request a1 body)) ''Authorization'' = Some ''Bearer t1''
                \<and> fst (snd (send lib e a1 body)) = a1)
       \<and> (T + 3600 * 1000000000 < Now_first e
            \<longrightarrow> metadata_calls (metadataTokenURL a1) (snd (snd (send lib e a1 body))) = 1)"
proof -
  have a1: "a1 = refreshed a0 T ''t1'' 3600"
    using send_refreshed_state [OF assms(1-3), of body0] by (simp add: assms(4,5))
  have ok: "NewRequest lib ''GET'' (metadataTokenURL a0) = None" "client a0"
    using getIAMTokenFromMetadata_Inr [OF assms(3)] by simp_all
  have token: "iamToken a1 = ''t1''"
    by (simp add: a1 refreshed_fields)
  have expiry: "iamTokenExpirationTime a1 = T + 3600 * 1000000000"
    by (simp add: a1 refreshed_fields Add_def Second_def)
  have post: "NewRequest lib ''POST'' (Endpoint a1) = None"
    by (simp add: a1 refreshed_fields assms(1))
  have get: "NewRequest lib ''GET'' (metadataTokenURL a1) = None" and client: "client a1"
    by (simp_all add: a1 refreshed_fields ok)
  have window: "metadata_calls (metadataTokenURL a1) (snd (snd (send lib e a1 body))) = 0
                \<and> requests (snd (snd (send lib e a1 body))) = [post_request a1 body]
                \<and> map_of (Header (post_request a1 body)) ''Authorization'' = Some ''Bearer t1''
                \<and> fst (snd (send lib e a1 body)) = a1"
    if "Now_first e \<le> T + 3600 * 1000000000"
  proof -
    have "\<not> Before (iamTokenExpirationTime a1) (Now_first e)"
      using that by (simp add: Before_def expiry)
    then have "send lib e a1 body =
        (outcome (http e (post_request a1 body)), a1, [Do (post_request a1 body)])"
      using post token client by (intro send_cached_results) simp_all
    then show ?thesis
      by (simp add: metadata_calls_def post_request_def token)
  qed
  have expired: "metadata_calls (metadataTokenURL a1) (snd (snd (send lib e a1 body))) = 1"
    if "T + 3600 * 1000000000 < Now_first e"
  proof -
    have "Before (iamTokenExpirationTime a1) (Now_first e)"
      using that by (simp add: Before_def expiry)
    then show ?thesis
      using post get client by (intro send_refresh_calls) simp_all
  qed
  from token expiry window expired show ?thesis
    by blast
qed


lemma sample_refreshed_eq: "sample_refreshed = refreshed sample_plugin 0 ''t1'' 3600"
  by (simp add: sample_refreshed_def sample_token_def call_defs sample_defs refreshed_def)

theorem token_caching_window_witness:
  "iamToken sample_refreshed = ''t1''
   \<and> iamTokenExpirationTime sample_refreshed = 3600000000000
   \<and> metadata_calls (metadataTokenURL sample_refreshed)
        (snd (snd (send sample_lib (sample_env 3600000000000 sample_token (Response 200 ''200 OK'' []))
                     sample_refreshed ''{}''))) = 0
   \<and> metadata_calls (metadataTokenURL sample_refreshed)
        (snd (snd (send sample_lib (sample_env 3600000000001 sample_token (Response 200 ''200 OK'' []))
                     sample_refreshed ''{}''))) = 1"
proof -
  let ?e0 = "sample_env 0 sample_token (Response 200 ''200 OK'' [])"
  let ?s = "send sample_lib ?e0 sample_plugin ''{}''"
  have h1: "NewRequest sample_lib ''POST'' (Endpoint sample_plugin) = None"
    by (simp add: sample_lib_def)
  have h2: "iamToken sample_plugin = []
      \<or> Before (iamTokenExpirationTime sample_plugin) (Now_first ?e0)"
    by (simp add: sample_defs)
  have h3: "getIAMTokenFromMetadata sample_lib ?e0 sample_plugin
      = (Inr (''t1'', 3600), snd (getIAMTokenFromMetadata sample_lib ?e0 sample_plugin))"
    by (simp add: sample_token_def call_defs sample_defs)
  have h4: "?s = (fst ?s, sample_refreshed, snd (snd ?s))"
    by (simp add: sample_refreshed_def)
  have h5: "0 = Now_second ?e0"
    by (simp add: sample_env_def)
  from token_caching_window [OF h1 h2 h3 h4 h5,
      of "sample_env 3600000000000 sample_token (Response 200 ''200 OK'' [])" "''{}''"]
    token_caching_window [OF h1 h2 h3 h4 h5,
      of "sample_env 3600000000001 sample_token (Response 200 ''200 OK'' [])" "''{}''"]
  show ?thesis
    by (simp add: sample_env_def)
qed

text \<open>
  C1, as it is written, at the instant T + 3600 s itself: the token that was refreshed at
  T = 0 is not yet before that instant, and \<^verbatim>\<open>send\<close> makes no metadata call.
\<close>

theorem token_caching_window_boundary:
  "iamToken sample_refreshed = ''t1''
   \<and> iamTokenExpirationTime sample_refreshed = 0 + 3600 * 1000000000
   \<and> metadata_calls (metadataTokenURL sample_refreshed)
        (snd (snd (send sample_lib
                     (sample_env (0 + 3600 * 1000000000) sample_token (Response 200 ''200 OK'' []))
                     sample_refreshed ''{}''))) = 0"
  by (simp add: sample_refreshed_eq refreshed_def call_defs sample_defs metadata_calls_def)

text \<open>
  C2. When \<^verbatim>\<open>send\<close> needs a token and the metadata response decodes to an empty
  \<^verbatim>\<open>access_token\<close> or to an \<^verbatim>\<open>expires_in\<close> of zero, \<^verbatim>\<open>getIAMTokenFromMetadata\<close> and
  \<^verbatim>\<open>send\<close> return an error, no POST is made, the plugin, with its token and its
  expiration time, is as it was, and a \<^verbatim>\<open>send\<close> at any later instant calls the token
  URL again.
\<close>

theorem refresh_failure_keeps_credential:
  assumes "NewRequest lib ''POST'' (Endpoint a) = None"
    and "iamToken a = [] \<or> Before (iamTokenExpirationTime a) (Now_first e)"
    and "getResponseFromMetadata lib e (client a) (metadataTokenURL a) = (Inr response, tr)"
    and "Unmarshal lib response = Inr metadata"
    and "AccessToken metadata = [] \<or> ExpiresIn metadata = 0"
  shows "fst (getIAMTokenFromMetadata lib e a) = Inl (NoCredentials (metadataTokenURL a))
       \<and> fst (send lib e a body) = Some (NoCredentials (metadataTokenURL a))
       \<and> fst (snd (send lib e a body)) = a
       \<and> posts (snd (snd (send lib e a body))) = []
       \<and> (Now_first e \<le> Now_first e'
            \<longrightarrow> metadata_calls (metadataTokenURL a) (snd (snd (send lib e' a body'))) = 1)"
proof -
  let ?tr = "Debugf (''Getting new IAM token in '' @ metadataTokenURL a) # tr"
  have g: "getIAMTokenFromMetadata lib e a = (Inl (NoCredentials (metadataTokenURL a)), ?tr)"
    using assms(5) by (simp add: getIAMTokenFromMetadata_def assms(3,4))
  have s: "send lib e a body = (Some (NoCredentials (metadataTokenURL a)), a, ?tr)"
    using assms(1,2) g by (rule send_refresh_failed)
  have p: "posts ?tr = []"
    using getIAMTokenFromMetadata_posts [of lib e a] by (simp only: g snd_conv)
  have ok: "NewRequest lib ''GET'' (metadataTokenURL a) = None" "client a"
    using getResponseFromMetadata_Inr [OF assms(3)] by simp_all
  have again: "metadata_calls (metadataTokenURL a) (snd (snd (send lib e' a body'))) = 1"
    if "Now_first e \<le> Now_first e'"
  proof -
    have "iamToken a = [] \<or> Before (iamTokenExpirationTime a) (Now_first e')"
      using assms(2) that by (auto simp add: Before_def)
    with assms(1) show ?thesis
      using ok by (rule send_refresh_calls)
  qed
  from g s p again show ?thesis
    by simp
qed

theorem refresh_failure_keeps_credential_witness:
  \<open>fst (send sample_lib
          (sample_env 0 ''{"access_token":"","expires_in":3600}'' (Response 200 ''200 OK'' []))
          sample_plugin ''{}'')
     = Some (NoCredentials defaultMetadataTokenURL)
   \<and> fst (snd (send sample_lib
          (sample_env 0 ''{"access_token":"","expires_in":3600}'' (Response 200 ''200 OK'' []))
          sample_plugin ''{}'')) = sample_plugin
   \<and> metadata_calls defaultMetadataTokenURL
        (snd (snd (send sample_lib (sample_env 7 sample_token (Response 200 ''200 OK'' []))
                     sample_plugin ''{}''))) = 1\<close>
proof -
  let ?e = \<open>sample_env 0 ''{"access_token":"","expires_in":3600}'' (Response 200 ''200 OK'' [])\<close>
  have h1: "NewRequest sample_lib ''POST'' (Endpoint sample_plugin) = None"
    by (simp add: sample_lib_def)
  have h2: "iamToken sample_plugin = []
      \<or> Before (iamTokenExpirationTime sample_plugin) (Now_first ?e)"
    by (simp add: sample_defs)
  have h3: \<open>getResponseFromMetadata sample_lib ?e (client sample_plugin)
        (metadataTokenURL sample_plugin)
      = (Inr ''{"access_token":"","expires_in":3600}'',
         [Do (metadata_request (metadataTokenURL sample_plugin))])\<close>
    by (simp add: getResponseFromMetadata_eq sample_defs metadata_request_def)
  have h4: \<open>Unmarshal sample_lib ''{"access_token":"","expires_in":3600}''
      = Inr \<lparr>AccessToken = [], ExpiresIn = 3600, TokenType = []\<rparr>\<close>
    by (simp add: sample_lib_def sample_Unmarshal_def)
  have h5: "AccessToken \<lparr>AccessToken = [], ExpiresIn = 3600, TokenType = []\<rparr> = []
      \<or> ExpiresIn \<lparr>AccessToken = [], ExpiresIn = 3600, TokenType = []\<rparr> = 0"
    by simp
  have url: "metadataTokenURL sample_plugin = defaultMetadataTokenURL"
    by (simp add: sample_plugin_def zero_plugin_def Init_def)
  from refresh_failure_keeps_credential [OF h1 h2 h3 h4 h5,
      of "''{}''" "sample_env 7 sample_token (Response 200 ''200 OK'' [])" "''{}''"]
  show ?thesis
    by (simp add: url) (simp add: sample_env_def)
qed

section \<open>The expiration time\<close>

lemma sint_seconds:
  fixes expiresIn :: "64 word"
  assumes "0 < sint expiresIn" and "sint expiresIn \<le> 9223372036"
  shows "sint (expiresIn * Second) = sint expiresIn * 1000000000"
proof -
  have "sint (expiresIn * Second) = signed_take_bit 63 (sint expiresIn * sint Second)"
    by (simp add: sint_word_mult)
  also have "sint Second = 1000000000"
    by (simp add: Second_def)
  also have "signed_take_bit 63 (sint expiresIn * 1000000000) = sint expiresIn * 1000000000"
    using assms by (intro signed_take_bit_int_eq_self) simp_all
  finally show ?thesis .
qed

lemma sint_int_of_int64:
  assumes "bits = 32 \<or> bits = 64"
    and "- (2 ^ (bits - 1)) \<le> sint x" and "sint x < 2 ^ (bits - 1)"
  shows "sint (int_of_int64 bits x) = sint x"
proof -
  have "sint (int_of_int64 bits x) = signed_take_bit 63 (signed_take_bit (bits - 1) (sint x))"
    by (simp add: int_of_int64_def sint_sbintrunc')
  also have "\<dots> = signed_take_bit (bits - 1) (sint x)"
    using assms(1) by (auto simp add: signed_take_bit_signed_take_bit)
  also have "\<dots> = sint x"
    using assms(2,3) by (rule signed_take_bit_int_eq_self)
  finally show ?thesis .
qed

lemma sint_int_of_int64_seconds:
  assumes "0 < sint x"
    and "IntSize lib = 32 \<and> sint x \<le> 2147483647 \<or> IntSize lib = 64 \<and> sint x \<le> 9223372036"
  shows "sint (int_of_int64 (IntSize lib) x * Second) = sint x * 1000000000"
proof -
  have conv: "sint (int_of_int64 (IntSize lib) x) = sint x"
    using assms by (intro sint_int_of_int64) auto
  have "sint (int_of_int64 (IntSize lib) x) \<le> 9223372036"
    using assms(2) by (auto simp add: conv)
  with assms(1) show ?thesis
    using sint_seconds [of "int_of_int64 (IntSize lib) x"] by (simp add: conv)
qed

lemma getIAMTokenFromMetadata_accepts:
  assumes "getResponseFromMetadata lib e (client a) (metadataTokenURL a) = (Inr response, tr)"
    and "Unmarshal lib response = Inr metadata"
    and "AccessToken metadata \<noteq> []" and "ExpiresIn metadata \<noteq> 0"
  shows "getIAMTokenFromMetadata lib e a =
           (Inr (AccessToken metadata, int_of_int64 (IntSize lib) (ExpiresIn metadata)),
            Debugf (''Getting new IAM token in '' @ metadataTokenURL a) # tr)"
  using assms(3,4) by (simp add: getIAMTokenFromMetadata_def assms(1,2))

text \<open>
  C7, as the code has it. When \<^verbatim>\<open>send\<close> refreshes the token from a metadata response
  that \<^verbatim>\<open>getIAMTokenFromMetadata\<close> accepts, with an \<^verbatim>\<open>expires_in\<close> from 1 to 2147483647
  where Go's \<^verbatim>\<open>int\<close> has 32 bits, or from 1 to 9223372036 (the seconds that fit a
  \<^verbatim>\<open>Duration\<close>) where it has 64 bits, it stores the token, which is not empty, and with it
  an expiration time of \<^verbatim>\<open>time.Now()\<close> plus \<^verbatim>\<open>expires_in\<close> seconds, which is after that
  \<^verbatim>\<open>time.Now()\<close>.
\<close>

theorem expiration_after_now:
  assumes "NewRequest lib ''POST'' (Endpoint a) = None"
    and "iamToken a = [] \<or> Before (iamTokenExpirationTime a) (Now_first e)"
    and "getResponseFromMetadata lib e (client a) (metadataTokenURL a) = (Inr response, tr)"
    and "Unmarshal lib response = Inr metadata"
    and "AccessToken metadata \<noteq> []"
    and "0 < sint (ExpiresIn metadata)"
    and "IntSize lib = 32 \<and> sint (ExpiresIn metadata) \<le> 2147483647
       \<or> IntSize lib = 64 \<and> sint (ExpiresIn metadata) \<le> 9223372036"
  shows "iamToken (fst (snd (send lib e a body))) = AccessToken metadata
       \<and> iamTokenExpirationTime (fst (snd (send lib e a body)))
           = Now_second e + sint (ExpiresIn metadata) * 1000000000
       \<and> Before (Now_second e) (iamTokenExpirationTime (fst (snd (send lib e a body))))"
proof -
  let ?expiresIn = "int_of_int64 (IntSize lib) (ExpiresIn metadata)"
  have "ExpiresIn metadata \<noteq> 0"
    using assms(6) by auto
  with assms(3-5) have "getIAMTokenFromMetadata lib e a =
      (Inr (AccessToken metadata, ?expiresIn),
       Debugf (''Getting new IAM token in '' @ metadataTokenURL a) # tr)"
    by (rule getIAMTokenFromMetadata_accepts)
  with assms(1,2)
  have a': "fst (snd (send lib e a body))
      = refreshed a (Now_second e) (AccessToken metadata) ?expiresIn"
    by (rule send_refreshed_state)
  have "iamTokenExpirationTime (fst (snd (send lib e a body)))
      = Now_second e + sint (ExpiresIn metadata) * 1000000000"
    by (simp add: a' refreshed_fields Add_def sint_int_of_int64_seconds [OF assms(6,7)])
  then show ?thesis
    using assms(6) by (simp add: a' refreshed_fields Before_def)
qed

theorem expiration_after_now_witness:
  "iamTokenExpirationTime
     (fst (snd (send sample_lib (sample_env 5 sample_token (Response 200 ''200 OK'' []))
                  sample_plugin ''{}''))) = 3600000000005
   \<and> iamTokenExpirationTime
     (fst (snd (send (sample_lib\<lparr>IntSize := 32\<rparr>)
                  (sample_env 5 sample_token (Response 200 ''200 OK'' []))
                  sample_plugin ''{}''))) = 3600000000005"
proof -
  let ?e = "sample_env 5 sample_token (Response 200 ''200 OK'' [])"
  let ?metadata = "\<lparr>AccessToken = ''t1'', ExpiresIn = 3600, TokenType = []\<rparr>"
  have h1: "NewRequest (sample_lib\<lparr>IntSize := n\<rparr>) ''POST'' (Endpoint sample_plugin) = None" for n
    by (simp add: sample_lib_def)
  have h2: "iamToken sample_plugin = []
      \<or> Before (iamTokenExpirationTime sample_plugin) (Now_first ?e)"
    by (simp add: sample_defs)
  have h3: "getResponseFromMetadata (sample_lib\<lparr>IntSize := n\<rparr>) ?e (client sample_plugin)
        (metadataTokenURL sample_plugin)
      = (Inr sample_token, [Do (metadata_request (metadataTokenURL sample_plugin))])" for n
    by (simp add: getResponseFromMetadata_eq sample_defs metadata_request_def)
  have h4: "Unmarshal (sample_lib\<lparr>IntSize := n\<rparr>) sample_token = Inr ?metadata" for n
    by (simp add: sample_lib_def sample_Unmarshal_def sample_token_def)
  have h5: "AccessToken ?metadata \<noteq> []"
    by simp
  have h6: "0 < sint (ExpiresIn ?metadata)"
    by simp
  have h64: "IntSize (sample_lib\<lparr>IntSize := 64\<rparr>) = 32 \<and> sint (ExpiresIn ?metadata) \<le> 2147483647
      \<or> IntSize (sample_lib\<lparr>IntSize := 64\<rparr>) = 64 \<and> sint (ExpiresIn ?metadata) \<le> 9223372036"
    by simp
  have h32: "IntSize (sample_lib\<lparr>IntSize := 32\<rparr>) = 32 \<and> sint (ExpiresIn ?metadata) \<le> 2147483647
      \<or> IntSize (sample_lib\<lparr>IntSize := 32\<rparr>) = 64 \<and> sint (ExpiresIn ?metadata) \<le> 9223372036"
    by simp
  have same: "sample_lib\<lparr>IntSize := 64\<rparr> = sample_lib"
    by (simp add: sample_lib_def)
  from expiration_after_now [OF h1 h2 h3 h4 h5 h6 h64, of "''{}''"]
    expiration_after_now [OF h1 h2 h3 h4 h5 h6 h32, of "''{}''"]
  show ?thesis
    by (simp add: same) (simp add: sample_env_def)
qed

text \<open>
  C7, as it is written, at three metadata responses that the refresh accepts: with an
  \<^verbatim>\<open>expires_in\<close> of -1 the expiration time stored with the token \<^verbatim>\<open>t1\<close> is one second
  before the \<^verbatim>\<open>time.Now()\<close> it was computed from; with an \<^verbatim>\<open>expires_in\<close> of
  9223372037 the nanoseconds wrap around, and it is before that \<^verbatim>\<open>time.Now()\<close> as well;
  and where \<^verbatim>\<open>int\<close> has 32 bits, an \<^verbatim>\<open>expires_in\<close> of 2147483648 becomes -2147483648
  in the conversion, and the expiration time is that many seconds before.
\<close>

theorem expiration_in_the_past:
  \<open>iamToken (fst (snd (send sample_lib
       (sample_env 5 ''{"access_token":"t1","expires_in":-1}'' (Response 200 ''200 OK'' []))
       sample_plugin ''{}''))) = ''t1''
   \<and> iamTokenExpirationTime (fst (snd (send sample_lib
       (sample_env 5 ''{"access_token":"t1","expires_in":-1}'' (Response 200 ''200 OK'' []))
       sample_plugin ''{}''))) = 5 - 1000000000
   \<and> iamToken (fst (snd (send sample_lib
       (sample_env 5 ''{"access_token":"t1","expires_in":9223372037}'' (Response 200 ''200 OK'' []))
       sample_plugin ''{}''))) = ''t1''
   \<and> iamTokenExpirationTime (fst (snd (send sample_lib
       (sample_env 5 ''{"access_token":"t1","expires_in":9223372037}'' (Response 200 ''200 OK'' []))
       sample_plugin ''{}''))) < 5
   \<and> iamToken (fst (snd (send (sample_lib\<lparr>IntSize := 32\<rparr>)
       (sample_env 5 ''{"access_token":"t1","expires_in":2147483648}'' (Response 200 ''200 OK'' []))
       sample_plugin ''{}''))) = ''t1''
   \<and> iamTokenExpirationTime (fst (snd (send (sample_lib\<lparr>IntSize := 32\<rparr>)
       (sample_env 5 ''{"access_token":"t1","expires_in":2147483648}'' (Response 200 ''200 OK'' []))
       sample_plugin ''{}''))) = 5 - 2147483648 * 1000000000\<close>
  by (simp add: call_defs sample_defs)

section \<open>The folder identifier\<close>

lemma send_state:
  "fst (snd (send lib e a body)) = a
   \<or> (\<exists>token expiresIn. fst (snd (send lib e a body)) = refreshed a (Now_second e) token expiresIn)"
  by (cases rule: send_cases [where lib = lib and a = a and e = e and body = body])
    (auto simp add: deliver_results)

lemma send_other_calls:
  assumes "u \<noteq> metadataTokenURL a"
  shows "metadata_calls u (snd (snd (send lib e a body))) = 0"
proof -
  have g: "metadata_calls u (snd (getIAMTokenFromMetadata lib e a)) = 0"
    using assms by (simp add: getIAMTokenFromMetadata_calls)
  show ?thesis
  proof (cases rule: send_cases [where lib = lib and a = a and e = e and body = body])
    case (no_request x)
    then show ?thesis by (simp add: metadata_calls_def)
  next
    case cached
    then show ?thesis by (simp add: deliver_results) (simp add: metadata_calls_def)
  next
    case (refresh_failed err tr)
    with g show ?thesis by simp
  next
    case (refreshed token expiresIn tr)
    with g show ?thesis by (simp add: deliver_results)
  qed
qed

lemma Write_frame:
  assumes "Write lib e a metrics = (err, a', tr)"
  shows "folderID a' = folderID a \<and> metadataFolderURL a' = metadataFolderURL a
         \<and> metadataTokenURL a' = metadataTokenURL a
         \<and> (u \<noteq> metadataTokenURL a \<longrightarrow> metadata_calls u tr = 0)"
proof (cases "Marshal lib \<lparr>msg_TS = [], msg_Labels = [],
                         Metrics = append_all NilSlice (translate lib metrics)\<rparr>")
  case (Inl x)
  with assms have "a' = a" and "tr = skips lib metrics"
    by (simp_all add: Write_eq)
  then show ?thesis
    by (simp add: metadata_calls_def requests_skips)
next
  case (Inr body)
  let ?s = "send lib e a (body @ [CHR 0x0A])"
  from assms Inr have a': "a' = fst (snd ?s)" and tr: "tr = skips lib metrics @ snd (snd ?s)"
    by (auto simp add: Write_eq split: prod.splits)
  have "metadata_calls u (skips lib metrics) = 0"
    by (simp add: metadata_calls_def requests_skips)
  then have "u \<noteq> metadataTokenURL a \<longrightarrow> metadata_calls u tr = 0"
    by (simp add: tr metadata_calls_append send_other_calls)
  moreover have "folderID a' = folderID a \<and> metadataFolderURL a' = metadataFolderURL a
         \<and> metadataTokenURL a' = metadataTokenURL a"
    using send_state [of lib e a "body @ [CHR 0x0A]"] by (auto simp add: a' refreshed_fields)
  ultimately show ?thesis
    by simp
qed

lemma Writes_frame:
  "Writes lib a calls = (a', tr) \<Longrightarrow>
     folderID a' = folderID a \<and> metadataFolderURL a' = metadataFolderURL a
     \<and> metadataTokenURL a' = metadataTokenURL a
     \<and> (u \<noteq> metadataTokenURL a \<longrightarrow> metadata_calls u tr = 0)"
proof (induction calls arbitrary: a a' tr)
  case Nil
  then show ?case by (simp add: metadata_calls_def)
next
  case (Cons c calls)
  obtain e metrics where c: "c = (e, metrics)" by (cases c)
  obtain err a1 tr1 where w: "Write lib e a metrics = (err, a1, tr1)"
    by (cases "Write lib e a metrics")
  obtain a2 tr2 where ws: "Writes lib a1 calls = (a2, tr2)"
    by (cases "Writes lib a1 calls")
  from Cons.prems have a': "a' = a2" and tr: "tr = tr1 @ tr2"
    by (simp_all add: c w ws)
  from Write_frame [OF w, of u] Cons.IH [OF ws] show ?case
    by (simp add: a' tr metadata_calls_append)
qed

lemma Connect_ok:
  assumes "Connect lib e a0 = (None, a, tr)"
  shows "metadata_calls (metadataFolderURL a0) tr = 1 \<and> folderID a \<noteq> []
         \<and> metadataFolderURL a = metadataFolderURL a0
         \<and> metadataTokenURL a = metadataTokenURL a0"
proof -
  obtain r tr' where g: "getResponseFromMetadata lib e (client a0) (metadataFolderURL a0) = (r, tr')"
    by (cases "getResponseFromMetadata lib e (client a0) (metadataFolderURL a0)")
  from assms obtain body where r: "r = Inr body"
    by (cases r) (simp_all add: Connect_def g)
  from assms have a: "a = a0\<lparr>folderID := body\<rparr>" and body: "body \<noteq> []"
    and tr: "requests tr = requests tr'"
    by (auto simp add: Connect_def g r Let_def requests_append split: if_splits)
  from getResponseFromMetadata_Inr [OF g [unfolded r]]
  have "requests tr' = [metadata_request (metadataFolderURL a0)]"
    by simp
  then show ?thesis
    by (simp add: a body tr metadata_calls_def metadata_request_def)
qed

text \<open>
  C8. \<^verbatim>\<open>Connect\<close>, when it succeeds, has called the folder URL once and holds a folder
  identifier that is not empty. When the token URL is another URL than the folder URL, any
  sequence of calls of \<^verbatim>\<open>Write\<close> after it, whatever they return, makes no call to the
  folder URL and leaves the folder identifier as \<^verbatim>\<open>Connect\<close> set it.
\<close>

theorem folder_id_frame:
  assumes "Connect lib e0 a0 = (None, a, tr0)"
    and "metadataTokenURL a0 \<noteq> metadataFolderURL a0"
    and "Writes lib a calls = (a', tr)"
  shows "metadata_calls (metadataFolderURL a) tr0 = 1 \<and> folderID a \<noteq> []
       \<and> metadata_calls (metadataFolderURL a) tr = 0
       \<and> folderID a' = folderID a"
  using Connect_ok [OF assms(1)] Writes_frame [OF assms(3), of "metadataFolderURL a"] assms(2)
  by simp

theorem folder_id_frame_witness:
  "folderID (fst (snd (Connect sample_lib (sample_env 0 ''b1g0folder'' (Response 200 ''200 OK'' []))
                         sample_plugin))) = ''b1g0folder''
   \<and> metadata_calls defaultMetadataFolderURL
        (snd (Writes sample_lib
           (fst (snd (Connect sample_lib (sample_env 0 ''b1g0folder'' (Response 200 ''200 OK'' []))
                        sample_plugin)))
           [(sample_env 1 sample_token (Response 200 ''200 OK'' []), sample_metrics),
            (sample_env 2 sample_token (Response 500 ''500 Internal Server Error'' []), [])])) = 0
   \<and> folderID (fst (Writes sample_lib
           (fst (snd (Connect sample_lib (sample_env 0 ''b1g0folder'' (Response 200 ''200 OK'' []))
                        sample_plugin)))
           [(sample_env 1 sample_token (Response 200 ''200 OK'' []), sample_metrics),
            (sample_env 2 sample_token (Response 500 ''500 Internal Server Error'' []), [])]))
       = ''b1g0folder''"
proof -
  let ?c = "Connect sample_lib (sample_env 0 ''b1g0folder'' (Response 200 ''200 OK'' [])) sample_plugin"
  let ?w = "Writes sample_lib (fst (snd ?c))
           [(sample_env 1 sample_token (Response 200 ''200 OK'' []), sample_metrics),
            (sample_env 2 sample_token (Response 500 ''500 Internal Server Error'' []), [])]"
  have id: "folderID (fst (snd ?c)) = ''b1g0folder''"
    by (simp add: Connect_def getResponseFromMetadata_eq sample_defs metadata_request_def)
  have url: "metadataFolderURL (fst (snd ?c)) = defaultMetadataFolderURL"
    by (simp add: Connect_def getResponseFromMetadata_eq sample_defs metadata_request_def)
  have h1: "?c = (None, fst (snd ?c), snd (snd ?c))"
    by (simp add: Connect_def getResponseFromMetadata_eq sample_defs metadata_request_def)
  have h2: "metadataTokenURL sample_plugin \<noteq> metadataFolderURL sample_plugin"
    by (simp add: sample_defs)
  have h3: "?w = (fst ?w, snd ?w)"
    by simp
  from folder_id_frame [OF h1 h2 h3] show ?thesis
    by (simp add: id url)
qed


section \<open>The empty batch\<close>

lemma send_posts_body:
  assumes "req \<in> set (posts (snd (snd (send lib e a body))))"
  shows "Body req = body"
proof (cases rule: send_cases [where lib = lib and a = a and e = e and body = body])
  case (no_request x)
  with assms show ?thesis by (simp add: posts_def)
next
  case cached
  with assms show ?thesis
    by (simp add: deliver_results) (simp add: posts_def post_request_def split: if_splits)
next
  case (refresh_failed err tr)
  with assms getIAMTokenFromMetadata_posts [of lib e a] show ?thesis by simp
next
  case (refreshed token expiresIn tr)
  with assms getIAMTokenFromMetadata_posts [of lib e a] show ?thesis
    by (simp add: deliver_results post_request_def split: if_splits)
qed

lemma translate_empty:
  "list_all (\<lambda>m. list_all (\<lambda>field. \<not> coerces lib field) (FieldList m)) metrics \<Longrightarrow>
     translate lib metrics = []"
  by (induction metrics) (simp_all add: translate_def list_all_iff)

lemma Marshal_null:
  \<open>Marshal lib \<lparr>msg_TS = [], msg_Labels = [], Metrics = NilSlice\<rparr> = Inr ''{"metrics":null}''\<close>
  by (simp add: Marshal_def)

text \<open>
  C10. For metrics none of whose fields coerces, the empty list among them, \<^verbatim>\<open>Write\<close>
  does what \<^verbatim>\<open>send\<close> does with the body \<^verbatim>\<open>{"metrics":null}\<close> and a newline, after the
  lines it logged, and every POST it hands to the client has these bytes as its body. It
  hands over exactly this one POST whenever the endpoint makes a request and either the
  token is held and not expired, with a client, or the token is missing or expired and
  \<^verbatim>\<open>getIAMTokenFromMetadata\<close> returns a new one, with which the POST is then made.
\<close>

theorem Write_empty_batch:
  assumes "list_all (\<lambda>m. list_all (\<lambda>field. \<not> coerces lib field) (FieldList m)) metrics"
  shows \<open>Write lib e a metrics =
           (case send lib e a (''{"metrics":null}'' @ [CHR 0x0A]) of
              (err, a', tr) \<Rightarrow> (err, a', skips lib metrics @ tr))
       \<and> (req \<in> set (posts (snd (snd (Write lib e a metrics))))
            \<longrightarrow> Body req = ''{"metrics":null}'' @ [CHR 0x0A])
       \<and> (NewRequest lib ''POST'' (Endpoint a) = None \<and> client a \<and> iamToken a \<noteq> []
          \<and> \<not> Before (iamTokenExpirationTime a) (Now_first e)
            \<longrightarrow> posts (snd (snd (Write lib e a metrics)))
                  = [post_request a (''{"metrics":null}'' @ [CHR 0x0A])])
       \<and> (NewRequest lib ''POST'' (Endpoint a) = None
          \<and> (iamToken a = [] \<or> Before (iamTokenExpirationTime a) (Now_first e))
          \<and> getIAMTokenFromMetadata lib e a = (Inr (token, expiresIn), tr0)
            \<longrightarrow> posts (snd (snd (Write lib e a metrics)))
                  = [post_request (refreshed a (Now_second e) token expiresIn)
                       (''{"metrics":null}'' @ [CHR 0x0A])])\<close>
proof -
  let ?body = \<open>''{"metrics":null}'' @ [CHR 0x0A]\<close>
  let ?s = "send lib e a ?body"
  have w: "Write lib e a metrics = (case ?s of (err, a', tr) \<Rightarrow> (err, a', skips lib metrics @ tr))"
    by (simp add: Write_eq translate_empty [OF assms] Marshal_null)
  then have p: "posts (snd (snd (Write lib e a metrics))) = posts (snd (snd ?s))"
    by (simp add: posts_append split: prod.split) (simp add: posts_def requests_skips)
  have "Body req = ?body" if "req \<in> set (posts (snd (snd (Write lib e a metrics))))"
    using that send_posts_body [of req lib e a ?body] by (simp only: p)
  moreover have "posts (snd (snd (Write lib e a metrics))) = [post_request a ?body]"
    if "NewRequest lib ''POST'' (Endpoint a) = None" and "client a" and "iamToken a \<noteq> []"
      and "\<not> Before (iamTokenExpirationTime a) (Now_first e)"
    using send_cached_results [OF that(1,3,4,2), of ?body]
    by (simp only: p) (simp add: posts_def post_request_def)
  moreover have "posts (snd (snd (Write lib e a metrics)))
      = [post_request (refreshed a (Now_second e) token expiresIn) ?body]"
    if "NewRequest lib ''POST'' (Endpoint a) = None"
      and "iamToken a = [] \<or> Before (iamTokenExpirationTime a) (Now_first e)"
      and "getIAMTokenFromMetadata lib e a = (Inr (token, expiresIn), tr0)"
  proof -
    have "client a"
      using getIAMTokenFromMetadata_Inr [OF that(3)] by simp
    moreover have "posts tr0 = []"
      using getIAMTokenFromMetadata_posts [of lib e a] by (simp add: that(3))
    ultimately show ?thesis
      using send_refreshed [OF that, of ?body]
      by (simp only: p) (simp add: deliver_results refreshed_fields)
  qed
  ultimately show ?thesis
    using w by blast
qed

theorem Write_empty_batch_witness:
  \<open>map Body (posts (snd (snd (Write sample_lib
       (sample_env 1000 sample_token (Response 200 ''200 OK'' [])) sample_refreshed
       [\<lparr>metric_Name = ''cpu'', FieldList = [Field ''model'' None], Tags = [], Time = 0\<rparr>]))))
     = [''{"metrics":null}'' @ [CHR 0x0A]]
   \<and> map Body (posts (snd (snd (Write sample_lib
       (sample_env 0 sample_token (Response 200 ''200 OK'' [])) sample_plugin
       ([] :: int option Metric list)))))
     = [''{"metrics":null}'' @ [CHR 0x0A]]\<close>
proof -
  let ?e = "sample_env 1000 sample_token (Response 200 ''200 OK'' [])"
  let ?start = "sample_env 0 sample_token (Response 200 ''200 OK'' [])"
  let ?ms = "[\<lparr>metric_Name = ''cpu'', FieldList = [Field ''model'' (None :: int option)],
               Tags = [], Time = 0\<rparr>]"
  let ?none = "[] :: int option Metric list"
  have h: "list_all (\<lambda>m. list_all (\<lambda>field. \<not> coerces sample_lib field) (FieldList m)) ?ms"
    by (simp add: coerces_def sample_lib_def)
  have h0: "list_all (\<lambda>m. list_all (\<lambda>field. \<not> coerces sample_lib field) (FieldList m)) ?none"
    by simp
  have c: "NewRequest sample_lib ''POST'' (Endpoint sample_refreshed) = None
      \<and> client sample_refreshed \<and> iamToken sample_refreshed \<noteq> []
      \<and> \<not> Before (iamTokenExpirationTime sample_refreshed) (Now_first ?e)"
    by (simp add: sample_refreshed_eq refreshed_def sample_defs Before_def Add_def Second_def)
  have r: "NewRequest sample_lib ''POST'' (Endpoint sample_plugin) = None
      \<and> (iamToken sample_plugin = []
          \<or> Before (iamTokenExpirationTime sample_plugin) (Now_first ?start))
      \<and> getIAMTokenFromMetadata sample_lib ?start sample_plugin
          = (Inr (''t1'', 3600), snd (getIAMTokenFromMetadata sample_lib ?start sample_plugin))"
    by (simp add: sample_token_def call_defs sample_defs)
  from Write_empty_batch [OF h, of ?e sample_refreshed] c
  have \<open>posts (snd (snd (Write sample_lib ?e sample_refreshed ?ms)))
      = [post_request sample_refreshed (''{"metrics":null}'' @ [CHR 0x0A])]\<close>
    by blast
  moreover from Write_empty_batch [OF h0, of ?start sample_plugin] r
  have \<open>posts (snd (snd (Write sample_lib ?start sample_plugin ?none)))
      = [post_request (refreshed sample_plugin (Now_second ?start) ''t1'' 3600)
           (''{"metrics":null}'' @ [CHR 0x0A])]\<close>
    by blast
  ultimately show ?thesis
    by (simp add: post_request_def)
qed

end
